theory Spec2Isabelle
  imports Complex_Main
begin

section \<open>BatchNormalization lowering of onnx2c (src/nodes/batchnormalization.h)\<close>

text \<open>
  The node class is embedded shallowly. Tensors live in a store and are referred to by
  address, because the node only holds \<open>const Tensor *\<close> pointers and
  \<open>calculateSqrtVarOffline\<close> writes through one of them. Every \<open>ERROR(...)\<close> of the
  source is a result \<open>Inl (ERROR msg)\<close> carrying the message the source prints; reads the
  C++ leaves undefined (a pointer that is null or dangling, an index past the end of a
  vector or buffer) are separate error values, so that they are branches of the model.
\<close>

subsection \<open>Data model\<close>

text \<open>The element type tags of \<open>onnx::TensorProto_DataType\<close>.\<close>

datatype DataType =
    TensorProto_DataType_UNDEFINED
  | TensorProto_DataType_FLOAT
  | TensorProto_DataType_UINT8
  | TensorProto_DataType_INT8
  | TensorProto_DataType_UINT16
  | TensorProto_DataType_INT16
  | TensorProto_DataType_INT32
  | TensorProto_DataType_INT64
  | TensorProto_DataType_STRING
  | TensorProto_DataType_BOOL
  | TensorProto_DataType_FLOAT16
  | TensorProto_DataType_DOUBLE
  | TensorProto_DataType_UINT32
  | TensorProto_DataType_UINT64
  | TensorProto_DataType_COMPLEX64
  | TensorProto_DataType_COMPLEX128
  | TensorProto_DataType_BFLOAT16

text \<open>The declared types of \<open>onnx::AttributeProto\<close>.\<close>

datatype AttributeType =
    AttributeProto_AttributeType_UNDEFINED
  | AttributeProto_AttributeType_FLOAT
  | AttributeProto_AttributeType_INT
  | AttributeProto_AttributeType_STRING
  | AttributeProto_AttributeType_TENSOR
  | AttributeProto_AttributeType_GRAPH
  | AttributeProto_AttributeType_SPARSE_TENSOR
  | AttributeProto_AttributeType_TYPE_PROTO
  | AttributeProto_AttributeType_FLOATS
  | AttributeProto_AttributeType_INTS
  | AttributeProto_AttributeType_STRINGS
  | AttributeProto_AttributeType_TENSORS
  | AttributeProto_AttributeType_GRAPHS
  | AttributeProto_AttributeType_SPARSE_TENSORS
  | AttributeProto_AttributeType_TYPE_PROTOS

text \<open>
  \<open>ERROR msg\<close> is the source's \<open>ERROR(msg)\<close>, which does not return. The other two
  values stand for undefined behaviour of the C++: \<open>OutOfBounds\<close> for \<open>v[i]\<close> with
  \<open>i\<close> past the end, \<open>InvalidPointer\<close> for dereferencing a null pointer or an address
  that holds no tensor.
\<close>

datatype error = ERROR string | OutOfBounds | InvalidPointer

text \<open>
  A tensor, with the members this file reads: \<open>data_dim\<close> (a \<open>std::vector<int>\<close>),
  \<open>data_type\<close>, \<open>isConst\<close> and \<open>data_buffer\<close>. The buffer is a \<open>void *\<close> that the
  source only reads and writes through a cast to \<open>float *\<close>; here it is the buffer as
  that cast sees it, the list of its 4-byte slots, each one a \<open>float\<close>. The type \<open>'f\<close>
  stands for the C++ type \<open>float\<close>. For a tensor whose \<open>data_type\<close> is
  \<open>FLOAT\<close>, slot \<open>k\<close> is element \<open>k\<close>. For any other element type the slots are
  not the elements: an element of a tensor of doubles is 8 bytes, the two slots \<open>2k\<close>
  and \<open>2k+1\<close>, so that such a tensor of \<open>data_num_elem()\<close> elements has twice as many
  slots.
\<close>

record 'f Tensor =
  data_dim :: "int list"
  data_type :: DataType
  isConst :: bool
  data_buffer :: "'f list"

type_synonym addr = nat

type_synonym 'f store = "'f Tensor list"

text \<open>An attribute record, with the accessors \<open>name()\<close>, \<open>type()\<close>, \<open>has_f()\<close>, \<open>f()\<close>
  and \<open>i()\<close> of \<open>onnx::AttributeProto\<close>; \<open>i()\<close> is a 64-bit integer.\<close>

record 'f AttributeProto =
  attr_name :: string
  attr_type :: AttributeType
  attr_has_f :: bool
  attr_f :: 'f
  attr_i :: int

text \<open>
  What the file uses and does not define is a parameter of the model: the arithmetic,
  comparison and printing of \<open>float\<close>, the float literals, the helper
  \<open>parse_attribute_int\<close>, the tensor that \<open>new Tensor\<close> constructs, the method
  \<open>data_type_str\<close> and the indentation macros \<open>INDT_1\<close> and \<open>INDT_2\<close> (each as
  the text it sends to \<open>dst\<close>).
\<close>

record 'f externals =
  float_add :: "'f \<Rightarrow> 'f \<Rightarrow> 'f"
  float_sqrt :: "'f \<Rightarrow> 'f"
  float_ne :: "'f \<Rightarrow> 'f \<Rightarrow> bool"
  float_put :: "'f \<Rightarrow> string"
  float_1_0 :: 'f
  float_0_0 :: 'f
  float_1e_5 :: 'f
  float_0_9 :: 'f
  parse_attribute_int :: "'f AttributeProto \<Rightarrow> error + int"
  new_Tensor :: "'f Tensor"
  data_type_str :: "'f Tensor \<Rightarrow> string"
  INDT_1 :: string
  INDT_2 :: string

text \<open>
  The node: the members of \<open>BatchNormalization\<close> and, of its base class \<open>Node\<close>, the
  operand list \<open>inputs\<close> and the two lists that \<open>register_input\<close> and
  \<open>register_output\<close> fill. A pointer member is \<open>None\<close> when it is \<open>NULL\<close>.
\<close>

record 'f BatchNormalization =
  op_name :: string
  inputs :: "addr list"
  input_params :: "(addr \<times> string) list"
  output_params :: "(addr \<times> string) list"
  sqrt_var_offline :: bool
  epsilon :: 'f
  momentum :: 'f
  input :: "addr option"
  scale :: "addr option"
  bias :: "addr option"
  mean :: "addr option"
  var :: "addr option"
  "output" :: "addr option"

subsection \<open>Helpers of the surrounding program\<close>

definition deref :: "'f store \<Rightarrow> addr \<Rightarrow> error + 'f Tensor" where
  "deref st a = (if a < length st then Inr (st ! a) else Inl InvalidPointer)"

text \<open>Modelled from the spec: \<open>Tensor::data_num_elem\<close> is not in src; the spec gives
  it as "total element count = product of shape".\<close>

definition data_num_elem :: "'f Tensor \<Rightarrow> int" where
  "data_num_elem t = prod_list (data_dim t)"

text \<open>Modelled from the spec: \<open>Node::typeConstraint_plainFloatingPoints\<close> is not in
  src; the spec accepts an operand whose "element type is plain floating point (integer,
  boolean, string, and quantized types are rejected)" and does not list the accepted
  types; float16, single precision and double are taken as the plain floating-point
  types.\<close>

definition typeConstraint_plainFloatingPoints :: "'f Tensor \<Rightarrow> bool" where
  "typeConstraint_plainFloatingPoints t =
     (data_type t = TensorProto_DataType_FLOAT16
      \<or> data_type t = TensorProto_DataType_FLOAT
      \<or> data_type t = TensorProto_DataType_DOUBLE)"

text \<open>Modelled from the spec: \<open>Node::register_input\<close> and \<open>Node::register_output\<close>
  are not in src; the spec has them record the tensor, under the given name, as consumed
  or produced by this node.\<close>

definition register_input ::
  "addr \<Rightarrow> string \<Rightarrow> 'f BatchNormalization \<Rightarrow> 'f BatchNormalization" where
  "register_input t nm n = n\<lparr>input_params := input_params n @ [(t, nm)]\<rparr>"

definition register_output ::
  "addr \<Rightarrow> string \<Rightarrow> 'f BatchNormalization \<Rightarrow> 'f BatchNormalization" where
  "register_output t nm n = n\<lparr>output_params := output_params n @ [(t, nm)]\<rparr>"

subsection \<open>The constructor\<close>

text \<open>The constructor of the source, applied to the operand list \<open>ins\<close> that the graph
  stores in \<open>inputs\<close> before it calls \<open>resolve\<close>.\<close>

definition BatchNormalization_ctor ::
  "'f externals \<Rightarrow> addr list \<Rightarrow> 'f BatchNormalization" where
  "BatchNormalization_ctor ext ins =
     \<lparr> op_name = ''BatchNormalization'',
       inputs = ins,
       input_params = [],
       output_params = [],
       sqrt_var_offline = False,
       epsilon = float_1e_5 ext,
       momentum = float_0_9 ext,
       input = None, scale = None, bias = None, mean = None, var = None,
       output = None \<rparr>"

subsection \<open>isSplatted\<close>

text \<open>The loop \<open>for( int i=0; i<t->data_num_elem(); i++ ) if( b[i] != value ) return false;\<close>
  followed by \<open>return true\<close>, from counter \<open>i\<close> on.\<close>

function isSplatted_loop ::
  "'f externals \<Rightarrow> 'f list \<Rightarrow> int \<Rightarrow> 'f \<Rightarrow> int \<Rightarrow> error + bool" where
  "isSplatted_loop ext b n v i =
     (if i < n then
        (if 0 \<le> i \<and> nat i < length b then
           (if float_ne ext (b ! nat i) v then Inr False
            else isSplatted_loop ext b n v (i + 1))
         else Inl OutOfBounds)
      else Inr True)"
  by pat_completeness auto
termination
  by (relation "measure (\<lambda>(ext, b, n, v, i). nat (n - i))") auto

declare isSplatted_loop.simps [simp del]

definition isSplatted :: "'f externals \<Rightarrow> 'f Tensor \<Rightarrow> 'f \<Rightarrow> error + bool" where
  "isSplatted ext t v =
     (if data_type t \<noteq> TensorProto_DataType_FLOAT then Inl (ERROR ''Unimplemented'')
      else if isConst t = False then Inr False
      else isSplatted_loop ext (data_buffer t) (data_num_elem t) v 0)"

subsection \<open>calculateSqrtVarOffline\<close>

text \<open>The loop \<open>for( int i=0; i<var->data_num_elem(); i++) v[i] = sqrt(v[i] + epsilon);\<close>
  from counter \<open>i\<close> on, returning the buffer it leaves.\<close>

function calculateSqrtVarOffline_loop ::
  "'f externals \<Rightarrow> 'f \<Rightarrow> int \<Rightarrow> 'f list \<Rightarrow> int \<Rightarrow> error + 'f list" where
  "calculateSqrtVarOffline_loop ext eps n v i =
     (if i < n then
        (if 0 \<le> i \<and> nat i < length v then
           calculateSqrtVarOffline_loop ext eps n
             (v[nat i := float_sqrt ext (float_add ext (v ! nat i) eps)]) (i + 1)
         else Inl OutOfBounds)
      else Inr v)"
  by pat_completeness auto
termination
  by (relation "measure (\<lambda>(ext, eps, n, v, i). nat (n - i))") auto

declare calculateSqrtVarOffline_loop.simps [simp del]

definition calculateSqrtVarOffline ::
  "'f externals \<Rightarrow> 'f store \<Rightarrow> 'f BatchNormalization \<Rightarrow> error + 'f store" where
  "calculateSqrtVarOffline ext st n =
     (case var n of
        None \<Rightarrow> Inl InvalidPointer
      | Some a \<Rightarrow>
          (case deref st a of
             Inl e \<Rightarrow> Inl e
           | Inr t \<Rightarrow>
               (case calculateSqrtVarOffline_loop ext (epsilon n) (data_num_elem t)
                       (data_buffer t) 0 of
                  Inl e \<Rightarrow> Inl e
                | Inr v \<Rightarrow> Inr (st[a := t\<lparr>data_buffer := v\<rparr>]))))"

subsection \<open>resolve\<close>

text \<open>Lines 162 to 171: the five operands are bound by position and registered.\<close>

definition resolve_bind :: "'f BatchNormalization \<Rightarrow> 'f BatchNormalization" where
  "resolve_bind n =
     (let n1 = register_input (inputs n ! 0) ''X'' (n\<lparr>input := Some (inputs n ! 0)\<rparr>);
          n2 = register_input (inputs n ! 1) ''scale'' (n1\<lparr>scale := Some (inputs n ! 1)\<rparr>);
          n3 = register_input (inputs n ! 2) ''bias'' (n2\<lparr>bias := Some (inputs n ! 2)\<rparr>);
          n4 = register_input (inputs n ! 3) ''mean'' (n3\<lparr>mean := Some (inputs n ! 3)\<rparr>)
      in register_input (inputs n ! 4) ''var'' (n4\<lparr>var := Some (inputs n ! 4)\<rparr>))"

text \<open>One of the five statements of lines 173 to 182, on the operand at address \<open>a\<close>.\<close>

definition resolve_typeConstraint :: "'f store \<Rightarrow> addr \<Rightarrow> error + unit" where
  "resolve_typeConstraint st a =
     (case deref st a of
        Inl e \<Rightarrow> Inl e
      | Inr t \<Rightarrow>
          if typeConstraint_plainFloatingPoints t = False
          then Inl (ERROR ''Incorrect input for node'')
          else Inr ())"

text \<open>Lines 173 to 182: input, scale, bias, mean and var, in this order.\<close>

definition resolve_types :: "'f store \<Rightarrow> 'f BatchNormalization \<Rightarrow> error + unit" where
  "resolve_types st n =
     (case resolve_typeConstraint st (inputs n ! 0) of Inl e \<Rightarrow> Inl e | Inr _ \<Rightarrow>
      case resolve_typeConstraint st (inputs n ! 1) of Inl e \<Rightarrow> Inl e | Inr _ \<Rightarrow>
      case resolve_typeConstraint st (inputs n ! 2) of Inl e \<Rightarrow> Inl e | Inr _ \<Rightarrow>
      case resolve_typeConstraint st (inputs n ! 3) of Inl e \<Rightarrow> Inl e | Inr _ \<Rightarrow>
      resolve_typeConstraint st (inputs n ! 4))"

text \<open>Lines 187 to 190: a pointer of the node (\<open>scale\<close> or \<open>bias\<close>) is passed to
  \<open>isSplatted\<close>.\<close>

definition isSplatted_at ::
  "'f externals \<Rightarrow> 'f store \<Rightarrow> addr option \<Rightarrow> 'f \<Rightarrow> error + bool" where
  "isSplatted_at ext st p v =
     (case p of
        None \<Rightarrow> Inl InvalidPointer
      | Some a \<Rightarrow> (case deref st a of Inl e \<Rightarrow> Inl e | Inr t \<Rightarrow> isSplatted ext t v))"

text \<open>Lines 187 to 194: scale and bias are nulled when splatted, the variance is folded
  when constant.\<close>

definition resolve_fold ::
  "'f externals \<Rightarrow> 'f store \<Rightarrow> 'f BatchNormalization
     \<Rightarrow> error + ('f store \<times> 'f BatchNormalization)" where
  "resolve_fold ext st n =
     (case isSplatted_at ext st (scale n) (float_1_0 ext) of Inl e \<Rightarrow> Inl e | Inr s \<Rightarrow>
      let n1 = (if s then n\<lparr>scale := None\<rparr> else n) in
      case isSplatted_at ext st (bias n1) (float_0_0 ext) of Inl e \<Rightarrow> Inl e | Inr b \<Rightarrow>
      let n2 = (if b then n1\<lparr>bias := None\<rparr> else n1) in
      case var n2 of None \<Rightarrow> Inl InvalidPointer | Some a \<Rightarrow>
      case deref st a of Inl e \<Rightarrow> Inl e | Inr t \<Rightarrow>
      if isConst t then
        (case calculateSqrtVarOffline ext st n2 of
           Inl e \<Rightarrow> Inl e
         | Inr st' \<Rightarrow> Inr (st', n2\<lparr>sqrt_var_offline := True\<rparr>))
      else Inr (st, n2))"

text \<open>Lines 196 to 200: \<open>new Tensor\<close> takes the next free address of the store.\<close>

definition resolve_output ::
  "'f externals \<Rightarrow> 'f store \<Rightarrow> 'f BatchNormalization
     \<Rightarrow> error + ('f store \<times> 'f BatchNormalization)" where
  "resolve_output ext st n =
     (case input n of None \<Rightarrow> Inl InvalidPointer | Some a \<Rightarrow>
      case deref st a of Inl e \<Rightarrow> Inl e | Inr X \<Rightarrow>
      let rv = (new_Tensor ext)\<lparr>data_dim := data_dim X, data_type := data_type X\<rparr>;
          p = length st
      in Inr (st @ [rv], register_output p ''output'' (n\<lparr>output := Some p\<rparr>)))"

definition resolve ::
  "'f externals \<Rightarrow> 'f store \<Rightarrow> 'f BatchNormalization
     \<Rightarrow> error + ('f store \<times> 'f BatchNormalization)" where
  "resolve ext st n =
     (if length (inputs n) \<noteq> 5
      then Inl (ERROR ''wrong number of inputs to BatchNormalization'')
      else
        (case resolve_types st (resolve_bind n) of Inl e \<Rightarrow> Inl e | Inr _ \<Rightarrow>
         case resolve_fold ext st (resolve_bind n) of Inl e \<Rightarrow> Inl e | Inr (st1, n1) \<Rightarrow>
         resolve_output ext st1 n1))"

subsection \<open>parseAttributes\<close>

definition parseAttribute_epsilon ::
  "'f AttributeProto \<Rightarrow> 'f BatchNormalization \<Rightarrow> error + 'f BatchNormalization" where
  "parseAttribute_epsilon a n =
     (if attr_type a \<noteq> AttributeProto_AttributeType_FLOAT
      then Inl (ERROR (''Bad attribute '' @ attr_name a))
      else if attr_has_f a = False
      then Inl (ERROR (''Bad attribute '' @ attr_name a))
      else Inr (n\<lparr>epsilon := attr_f a\<rparr>))"

definition parseAttribute_momentum ::
  "'f AttributeProto \<Rightarrow> 'f BatchNormalization \<Rightarrow> error + 'f BatchNormalization" where
  "parseAttribute_momentum a n =
     (if attr_type a \<noteq> AttributeProto_AttributeType_FLOAT
      then Inl (ERROR (''Bad attribute '' @ attr_name a))
      else if attr_has_f a = False
      then Inl (ERROR (''Bad attribute '' @ attr_name a))
      else Inr (n\<lparr>momentum := attr_f a\<rparr>))"

text \<open>
  The conversion of an integer to the 32-bit \<open>int\<close> of the source, as in
  \<open>int spatial = parse_attribute_int(a)\<close> on a value taken from the 64-bit field
  \<open>i()\<close>: the value modulo \<open>2^32\<close>, in the range from \<open>-2^31\<close> to \<open>2^31 - 1\<close>.
\<close>

definition int32_of :: "int \<Rightarrow> int" where
  "int32_of v = (v + 2147483648) mod 4294967296 - 2147483648"

text \<open>The body of the loop of \<open>parseAttributes\<close>, for one attribute record. The
  parameter \<open>parse_attribute_int\<close> gives the integer that the helper reads from the
  record; line 70 holds it in an \<open>int\<close>.\<close>

definition parseAttributes_body ::
  "'f externals \<Rightarrow> 'f AttributeProto \<Rightarrow> 'f BatchNormalization
     \<Rightarrow> error + 'f BatchNormalization" where
  "parseAttributes_body ext a n =
     (if attr_name a = ''epsilon'' then parseAttribute_epsilon a n
      else if attr_name a = ''momentum'' then parseAttribute_momentum a n
      else if attr_name a = ''spatial'' then
        (case parse_attribute_int ext a of
           Inl e \<Rightarrow> Inl e
         | Inr v \<Rightarrow>
             let spatial = int32_of v
             in if spatial \<noteq> 1
                then Inl (ERROR ''non-default value for 'spatial' attribute not implemented'')
                else Inr n)
      else Inl (ERROR (''Unknown attribute '' @ attr_name a)))"

fun parseAttributes ::
  "'f externals \<Rightarrow> 'f AttributeProto list \<Rightarrow> 'f BatchNormalization
     \<Rightarrow> error + 'f BatchNormalization" where
  "parseAttributes ext [] n = Inr n"
| "parseAttributes ext (a # as) n =
     (case parseAttributes_body ext a n of
        Inl e \<Rightarrow> Inl e
      | Inr n' \<Rightarrow> parseAttributes ext as n')"

subsection \<open>print\<close>

text \<open>
  The text sent to \<open>dst\<close> is modelled as the list of its lines: each \<open>std::endl\<close> of
  the source ends one. \<open>TAB\<close> is the character written \<open>\t\<close> in the source.
\<close>

abbreviation TAB :: string where
  "TAB \<equiv> [CHR 0x09]"

text \<open>\<open>std::to_string\<close> on an unsigned value: its decimal digits.\<close>

function to_string :: "nat \<Rightarrow> string" where
  "to_string n =
     (if n < 10 then [''0123456789'' ! n]
      else to_string (n div 10) @ [''0123456789'' ! (n mod 10)])"
  by pat_completeness auto
termination
  by (relation "measure (\<lambda>n. n)") auto

declare to_string.simps [simp del]

text \<open>\<open>dst << k\<close> for an \<open>int\<close>: a minus sign when negative, then the decimal
  digits.\<close>

definition put_int :: "int \<Rightarrow> string" where
  "put_int k = (if k < 0 then ''-'' @ to_string (nat (- k)) else to_string (nat k))"

text \<open>\<open>v[i]\<close> on a \<open>std::vector\<close>.\<close>

definition vector_at :: "'a list \<Rightarrow> nat \<Rightarrow> error + 'a" where
  "vector_at v i = (if i < length v then Inr (v ! i) else Inl OutOfBounds)"

text \<open>Lines 85 to 88: the comment block and the empty line after it.\<close>

definition print_comment :: "'f externals \<Rightarrow> 'f BatchNormalization \<Rightarrow> string list" where
  "print_comment ext n =
     [TAB @ ''/* BatchNormalization'',
      TAB @ '' * epsilon = '' @ float_put ext (epsilon n),
      TAB @ '' * momentum = '' @ float_put ext (momentum n),
      TAB @ '' */'',
      []]"

text \<open>Lines 90 and 91.\<close>

definition print_epsilon :: "'f externals \<Rightarrow> 'f BatchNormalization \<Rightarrow> string list" where
  "print_epsilon ext n =
     (if sqrt_var_offline n = False
      then [INDT_1 ext @ ''float epsilon = '' @ float_put ext (epsilon n) @ '';'']
      else [])"

text \<open>Lines 93 and 94.\<close>

definition print_batch_chan :: "int \<Rightarrow> int \<Rightarrow> string list" where
  "print_batch_chan batch_size num_chan =
     [TAB @ ''for( int32_t b=0; b<'' @ put_int batch_size @ ''; b++ ) {'',
      TAB @ ''for( int32_t c=0; c<'' @ put_int num_chan @ ''; c++ ) {'']"

text \<open>Lines 98 and 99: what the loop appends to \<open>idxs\<close>, from counter \<open>i\<close> on;
  \<open>sz\<close> is \<open>input->data_dim.size()\<close>.\<close>

function print_idxs :: "nat \<Rightarrow> nat \<Rightarrow> string" where
  "print_idxs sz i =
     (if i < sz then ''[i'' @ to_string i @ '']'' @ print_idxs sz (i + 1) else [])"
  by pat_completeness auto
termination
  by (relation "measure (\<lambda>(sz, i). sz - i)") auto

declare print_idxs.simps [simp del]

text \<open>Lines 103 to 108: the loops over the data dimensions, from counter \<open>i\<close> on.\<close>

function print_loops :: "int list \<Rightarrow> nat \<Rightarrow> string list" where
  "print_loops dims i =
     (if i < length dims then
        (let idx = ''i'' @ to_string i
         in (TAB @ ''for( uint32_t '' @ idx @ ''=0; ''
               @ idx @ ''<'' @ put_int (dims ! i) @ ''; ''
               @ idx @ ''++ ) {'') # print_loops dims (i + 1))
      else [])"
  by pat_completeness auto
termination
  by (relation "measure (\<lambda>(dims, i). length dims - i)") auto

declare print_loops.simps [simp del]

text \<open>Lines 110 to 114.\<close>

definition print_tmp_X ::
  "'f externals \<Rightarrow> 'f BatchNormalization \<Rightarrow> string \<Rightarrow> string \<Rightarrow> string list" where
  "print_tmp_X ext n type idxs =
     [INDT_2 ext @ type @ '' tmp_X = ( X'' @ idxs @ '' - mean[c] ) / ''
        @ (if sqrt_var_offline n then ''( var[c] );'' else ''( sqrt( var[c] + epsilon));'')]"

text \<open>Lines 116 to 121.\<close>

definition print_output ::
  "'f externals \<Rightarrow> 'f BatchNormalization \<Rightarrow> string \<Rightarrow> string list" where
  "print_output ext n idxs =
     [INDT_2 ext @ ''output'' @ idxs @ '' = tmp_X ''
        @ (if scale n \<noteq> None then ''* scale[c]'' else [])
        @ (if bias n \<noteq> None then '' + bias[c]'' else [])
        @ '';'']"

text \<open>Lines 123 and 124: the closing braces of the loops over the data dimensions.\<close>

function print_close :: "nat \<Rightarrow> nat \<Rightarrow> string list" where
  "print_close sz i = (if i < sz then (TAB @ ''}'') # print_close sz (i + 1) else [])"
  by pat_completeness auto
termination
  by (relation "measure (\<lambda>(sz, i). sz - i)") auto

declare print_close.simps [simp del]

definition print ::
  "'f externals \<Rightarrow> 'f store \<Rightarrow> 'f BatchNormalization \<Rightarrow> error + string list" where
  "print ext st n =
     (case input n of None \<Rightarrow> Inl InvalidPointer | Some a \<Rightarrow>
      case deref st a of Inl e \<Rightarrow> Inl e | Inr X \<Rightarrow>
      case vector_at (data_dim X) 0 of Inl e \<Rightarrow> Inl e | Inr batch_size \<Rightarrow>
      case vector_at (data_dim X) 1 of Inl e \<Rightarrow> Inl e | Inr num_chan \<Rightarrow>
      let type = data_type_str ext X;
          idxs = ''[b][c]'' @ print_idxs (length (data_dim X)) 2
      in Inr (print_comment ext n
              @ print_epsilon ext n
              @ print_batch_chan batch_size num_chan
              @ print_loops (data_dim X) 2
              @ print_tmp_X ext n type idxs
              @ print_output ext n idxs
              @ print_close (length (data_dim X)) 2
              @ [TAB @ ''}'', TAB @ ''}'']))"

subsection \<open>An interpretation of the parameters\<close>

text \<open>
  For closed instances the parameters are interpreted with \<open>float\<close> as the reals:
  exact addition and square root, inequality as \<open>!=\<close>, the literals at their
  decimal values, and the two default values printed as \<open>dst << x\<close> prints them.
\<close>

definition real_externals :: "real externals" where
  "real_externals =
     \<lparr> float_add = (+),
       float_sqrt = sqrt,
       float_ne = (\<noteq>),
       float_put = (\<lambda>x. if x = 1 / 100000 then ''1e-05'' else if x = 9 / 10 then ''0.9'' else ''?''),
       float_1_0 = 1,
       float_0_0 = 0,
       float_1e_5 = 1 / 100000,
       float_0_9 = 9 / 10,
       parse_attribute_int =
         (\<lambda>a. if attr_type a \<noteq> AttributeProto_AttributeType_INT
              then Inl (ERROR (''Wrong attribute type for attribute '' @ attr_name a))
              else Inr (attr_i a)),
       new_Tensor =
         \<lparr> data_dim = [], data_type = TensorProto_DataType_UNDEFINED, isConst = False,
           data_buffer = [] \<rparr>,
       data_type_str = (\<lambda>t. ''float''),
       INDT_1 = TAB,
       INDT_2 = TAB @ TAB \<rparr>"

text \<open>
  The end-to-end scenario of the specification: an input of shape \<open>[2,3,4,4]\<close> at
  address 0, then constant scale \<open>[1,1,1]\<close>, bias \<open>[0,0,0]\<close>, mean
  \<open>[0.1,0.2,0.3]\<close> and variance \<open>[1,4,9]\<close>; the node as constructed, after binding,
  after folding and after resolution.
\<close>

definition scenario_store :: "real store" where
  "scenario_store =
     [\<lparr> data_dim = [2, 3, 4, 4], data_type = TensorProto_DataType_FLOAT, isConst = False,
        data_buffer = [] \<rparr>,
      \<lparr> data_dim = [3], data_type = TensorProto_DataType_FLOAT, isConst = True,
        data_buffer = [1, 1, 1] \<rparr>,
      \<lparr> data_dim = [3], data_type = TensorProto_DataType_FLOAT, isConst = True,
        data_buffer = [0, 0, 0] \<rparr>,
      \<lparr> data_dim = [3], data_type = TensorProto_DataType_FLOAT, isConst = True,
        data_buffer = [1 / 10, 2 / 10, 3 / 10] \<rparr>,
      \<lparr> data_dim = [3], data_type = TensorProto_DataType_FLOAT, isConst = True,
        data_buffer = [1, 4, 9] \<rparr>]"

definition scenario_node :: "real BatchNormalization" where
  "scenario_node = BatchNormalization_ctor real_externals [0, 1, 2, 3, 4]"

definition scenario_node_bound :: "real BatchNormalization" where
  "scenario_node_bound =
     \<lparr> op_name = ''BatchNormalization'',
       inputs = [0, 1, 2, 3, 4],
       input_params = [(0, ''X''), (1, ''scale''), (2, ''bias''), (3, ''mean''), (4, ''var'')],
       output_params = [],
       sqrt_var_offline = False,
       epsilon = 1 / 100000,
       momentum = 9 / 10,
       input = Some 0, scale = Some 1, bias = Some 2, mean = Some 3, var = Some 4,
       output = None \<rparr>"

definition scenario_store_folded :: "real store" where
  "scenario_store_folded =
     scenario_store
       [4 := \<lparr> data_dim = [3], data_type = TensorProto_DataType_FLOAT, isConst = True,
               data_buffer = [sqrt (1 + 1 / 100000), sqrt (4 + 1 / 100000),
                              sqrt (9 + 1 / 100000)] \<rparr>]"

definition scenario_node_folded :: "real BatchNormalization" where
  "scenario_node_folded =
     scenario_node_bound\<lparr>scale := None, bias := None, sqrt_var_offline := True\<rparr>"

definition scenario_store_resolved :: "real store" where
  "scenario_store_resolved =
     scenario_store_folded
     @ [\<lparr> data_dim = [2, 3, 4, 4], data_type = TensorProto_DataType_FLOAT,
          isConst = False, data_buffer = [] \<rparr>]"

definition scenario_node_resolved :: "real BatchNormalization" where
  "scenario_node_resolved =
     scenario_node_folded\<lparr>output_params := [(5, ''output'')], output := Some 5\<rparr>"

text \<open>The second scenario: the same operands, the variance not constant.\<close>

definition scenario2_store :: "real store" where
  "scenario2_store =
     scenario_store
       [4 := \<lparr> data_dim = [3], data_type = TensorProto_DataType_FLOAT, isConst = False,
               data_buffer = [] \<rparr>]"

definition scenario2_node_folded :: "real BatchNormalization" where
  "scenario2_node_folded = scenario_node_bound\<lparr>scale := None, bias := None\<rparr>"

definition scenario2_store_resolved :: "real store" where
  "scenario2_store_resolved =
     scenario2_store
     @ [\<lparr> data_dim = [2, 3, 4, 4], data_type = TensorProto_DataType_FLOAT,
          isConst = False, data_buffer = [] \<rparr>]"

definition scenario2_node_resolved :: "real BatchNormalization" where
  "scenario2_node_resolved =
     scenario2_node_folded\<lparr>output_params := [(5, ''output'')], output := Some 5\<rparr>"

subsection \<open>The loop nest, in the words of the specification\<close>

text \<open>
  The specification describes the emitted loops as one counting loop per dimension, each
  running from 0 up to the dimension's static extent: the batch loop over \<open>b\<close>, the
  channel loop over \<open>c\<close>, then one loop per data dimension \<open>2..R-1\<close>.
  \<open>spec_loop ty v bound\<close> is the header of such a loop in the emitted C, with counter
  \<open>v\<close> of type \<open>ty\<close>; \<open>spec_loop_nest dims\<close> lists the headers for a shape, in this
  order. They are compared with what \<open>print\<close> emits.
\<close>

definition spec_loop :: "string \<Rightarrow> string \<Rightarrow> int \<Rightarrow> string" where
  "spec_loop ty v bound =
     TAB @ ''for( '' @ ty @ '' '' @ v @ ''=0; '' @ v @ ''<'' @ put_int bound @ ''; ''
       @ v @ ''++ ) {''"

definition spec_loop_nest :: "int list \<Rightarrow> string list" where
  "spec_loop_nest dims =
     map (\<lambda>i. spec_loop (if i < 2 then ''int32_t'' else ''uint32_t'')
                (if i = 0 then ''b'' else if i = 1 then ''c'' else ''i'' @ to_string i)
                (dims ! i))
       [0..<length dims]"

text \<open>Three variants of the scenario's operands: a mean of 32-bit integers, a scale of
  doubles, and an input of rank 1.\<close>

definition store_int32_mean :: "real store" where
  "store_int32_mean =
     scenario_store
       [3 := \<lparr> data_dim = [3], data_type = TensorProto_DataType_INT32, isConst = True,
               data_buffer = [] \<rparr>]"

definition store_double_scale :: "real store" where
  "store_double_scale =
     scenario_store
       [1 := \<lparr> data_dim = [3], data_type = TensorProto_DataType_DOUBLE, isConst = False,
               data_buffer = [] \<rparr>]"

definition store_rank1_input :: "real store" where
  "store_rank1_input =
     scenario_store
       [0 := \<lparr> data_dim = [3], data_type = TensorProto_DataType_FLOAT, isConst = False,
               data_buffer = [] \<rparr>]"

text \<open>Attribute records: an epsilon of integer type, a momentum without a value, the
  legacy flag at 0, at 1 and at \<open>2^32 + 1\<close>, an attribute this node does not know, and
  a well-formed epsilon.\<close>

definition attr_epsilon_int :: "real AttributeProto" where
  "attr_epsilon_int =
     \<lparr> attr_name = ''epsilon'', attr_type = AttributeProto_AttributeType_INT,
       attr_has_f = False, attr_f = 0, attr_i = 1 \<rparr>"

definition attr_momentum_no_value :: "real AttributeProto" where
  "attr_momentum_no_value =
     \<lparr> attr_name = ''momentum'', attr_type = AttributeProto_AttributeType_FLOAT,
       attr_has_f = False, attr_f = 0, attr_i = 0 \<rparr>"

definition attr_spatial_0 :: "real AttributeProto" where
  "attr_spatial_0 =
     \<lparr> attr_name = ''spatial'', attr_type = AttributeProto_AttributeType_INT,
       attr_has_f = False, attr_f = 0, attr_i = 0 \<rparr>"

definition attr_spatial_1 :: "real AttributeProto" where
  "attr_spatial_1 =
     \<lparr> attr_name = ''spatial'', attr_type = AttributeProto_AttributeType_INT,
       attr_has_f = False, attr_f = 0, attr_i = 1 \<rparr>"

definition attr_training_mode :: "real AttributeProto" where
  "attr_training_mode =
     \<lparr> attr_name = ''training_mode'', attr_type = AttributeProto_AttributeType_INT,
       attr_has_f = False, attr_f = 0, attr_i = 1 \<rparr>"

definition attr_epsilon_float :: "real AttributeProto" where
  "attr_epsilon_float =
     \<lparr> attr_name = ''epsilon'', attr_type = AttributeProto_AttributeType_FLOAT,
       attr_has_f = True, attr_f = 1 / 1000, attr_i = 0 \<rparr>"

text \<open>
  A constant variance of doubles beside float input, scale, bias and mean: the shape is
  \<open>[3]\<close> and the buffer holds the doubles 1.0, 4.0 and 9.0, which are, low half first,
  the six 4-byte slots 0, 1.875, 0, 2.25, 0 and 2.53125.
\<close>

definition store_double_variance :: "real store" where
  "store_double_variance =
     scenario_store
       [4 := \<lparr> data_dim = [3], data_type = TensorProto_DataType_DOUBLE, isConst = True,
               data_buffer = [0, 15 / 8, 0, 9 / 4, 0, 81 / 32] \<rparr>]"

definition store_double_variance_folded :: "real store" where
  "store_double_variance_folded =
     store_double_variance
       [4 := \<lparr> data_dim = [3], data_type = TensorProto_DataType_DOUBLE, isConst = True,
               data_buffer = [sqrt (0 + 1 / 100000), sqrt (15 / 8 + 1 / 100000),
                              sqrt (0 + 1 / 100000), 9 / 4, 0, 81 / 32] \<rparr>]"

definition store_double_variance_resolved :: "real store" where
  "store_double_variance_resolved =
     store_double_variance_folded
     @ [\<lparr> data_dim = [2, 3, 4, 4], data_type = TensorProto_DataType_FLOAT,
          isConst = False, data_buffer = [] \<rparr>]"

definition attr_spatial_wraps :: "real AttributeProto" where
  "attr_spatial_wraps =
     \<lparr> attr_name = ''spatial'', attr_type = AttributeProto_AttributeType_INT,
       attr_has_f = False, attr_f = 0, attr_i = 4294967297 \<rparr>"

section \<open>Properties\<close>

subsection \<open>The scenarios, evaluated\<close>

lemma real_externals_sel:
  "float_add real_externals = (+)"
  "float_sqrt real_externals = sqrt"
  "float_ne real_externals = (\<noteq>)"
  "float_1_0 real_externals = 1"
  "float_0_0 real_externals = 0"
  "float_1e_5 real_externals = 1 / 100000"
  "float_0_9 real_externals = 9 / 10"
  "INDT_1 real_externals = TAB"
  "INDT_2 real_externals = TAB @ TAB"
  "new_Tensor real_externals = \<lparr> data_dim = [], data_type = TensorProto_DataType_UNDEFINED,
     isConst = False, data_buffer = [] \<rparr>"
  by (simp_all add: real_externals_def)

lemma scenario_bind: "resolve_bind scenario_node = scenario_node_bound"
  by (simp add: resolve_bind_def register_input_def Let_def scenario_node_def
        scenario_node_bound_def BatchNormalization_ctor_def real_externals_sel)

lemma scenario_types: "resolve_types scenario_store scenario_node_bound = Inr ()"
  by (simp add: resolve_types_def resolve_typeConstraint_def deref_def
        typeConstraint_plainFloatingPoints_def scenario_store_def scenario_node_bound_def)

lemma scenario_scale:
  "isSplatted_at real_externals scenario_store (scale scenario_node_bound)
     (float_1_0 real_externals) = Inr True"
  by (simp add: isSplatted_at_def isSplatted_def deref_def data_num_elem_def
        isSplatted_loop.simps scenario_store_def scenario_node_bound_def real_externals_sel)

lemma scenario_bias:
  "isSplatted_at real_externals scenario_store (bias scenario_node_bound)
     (float_0_0 real_externals) = Inr True"
  by (simp add: isSplatted_at_def isSplatted_def deref_def data_num_elem_def
        isSplatted_loop.simps scenario_store_def scenario_node_bound_def real_externals_sel)

lemma scenario_calculate:
  "calculateSqrtVarOffline real_externals scenario_store
     (scenario_node_bound\<lparr>scale := None, bias := None\<rparr>) = Inr scenario_store_folded"
  by (simp add: calculateSqrtVarOffline_def deref_def data_num_elem_def
        calculateSqrtVarOffline_loop.simps scenario_store_def scenario_node_bound_def
        scenario_store_folded_def real_externals_sel)

lemma scenario_fold:
  "resolve_fold real_externals scenario_store scenario_node_bound =
     Inr (scenario_store_folded, scenario_node_folded)"
proof -
  have v: "var scenario_node_bound = Some 4" by (simp add: scenario_node_bound_def)
  have d: "isConst (scenario_store ! 4)" "4 < length scenario_store"
    by (simp_all add: scenario_store_def)
  show ?thesis
    by (simp add: resolve_fold_def Let_def scenario_scale scenario_bias v d deref_def
          scenario_calculate scenario_node_folded_def)
qed

lemma scenario_output:
  "resolve_output real_externals scenario_store_folded scenario_node_folded =
     Inr (scenario_store_resolved, scenario_node_resolved)"
  by (simp add: resolve_output_def deref_def register_output_def Let_def
        scenario_store_def scenario_store_folded_def scenario_node_bound_def
        scenario_node_folded_def scenario_store_resolved_def scenario_node_resolved_def
        real_externals_sel)

lemma scenario_resolve:
  "resolve real_externals scenario_store scenario_node =
     Inr (scenario_store_resolved, scenario_node_resolved)"
proof -
  have len: "length (inputs scenario_node) = 5"
    by (simp add: scenario_node_def BatchNormalization_ctor_def)
  show ?thesis
    by (simp add: resolve_def len scenario_bind scenario_types scenario_fold scenario_output)
qed

lemma scenario2_types: "resolve_types scenario2_store scenario_node_bound = Inr ()"
  by (simp add: resolve_types_def resolve_typeConstraint_def deref_def
        typeConstraint_plainFloatingPoints_def scenario_store_def scenario2_store_def
        scenario_node_bound_def)

lemma scenario2_scale:
  "isSplatted_at real_externals scenario2_store (scale scenario_node_bound)
     (float_1_0 real_externals) = Inr True"
  by (simp add: isSplatted_at_def isSplatted_def deref_def data_num_elem_def
        isSplatted_loop.simps scenario_store_def scenario2_store_def scenario_node_bound_def
        real_externals_sel)

lemma scenario2_bias:
  "isSplatted_at real_externals scenario2_store (bias scenario_node_bound)
     (float_0_0 real_externals) = Inr True"
  by (simp add: isSplatted_at_def isSplatted_def deref_def data_num_elem_def
        isSplatted_loop.simps scenario_store_def scenario2_store_def scenario_node_bound_def
        real_externals_sel)

lemma scenario2_fold:
  "resolve_fold real_externals scenario2_store scenario_node_bound =
     Inr (scenario2_store, scenario2_node_folded)"
proof -
  have v: "var scenario_node_bound = Some 4" by (simp add: scenario_node_bound_def)
  have d: "\<not> isConst (scenario2_store ! 4)" "4 < length scenario2_store"
    by (simp_all add: scenario_store_def scenario2_store_def)
  show ?thesis
    by (simp add: resolve_fold_def Let_def scenario2_scale scenario2_bias v d deref_def
          scenario2_node_folded_def)
qed

lemma scenario2_output:
  "resolve_output real_externals scenario2_store scenario2_node_folded =
     Inr (scenario2_store_resolved, scenario2_node_resolved)"
  by (simp add: resolve_output_def deref_def register_output_def Let_def
        scenario_store_def scenario2_store_def scenario_node_bound_def
        scenario2_node_folded_def scenario2_store_resolved_def scenario2_node_resolved_def
        real_externals_sel)

lemma scenario2_resolve:
  "resolve real_externals scenario2_store scenario_node =
     Inr (scenario2_store_resolved, scenario2_node_resolved)"
proof -
  have len: "length (inputs scenario_node) = 5"
    by (simp add: scenario_node_def BatchNormalization_ctor_def)
  show ?thesis
    by (simp add: resolve_def len scenario_bind scenario2_types scenario2_fold
          scenario2_output)
qed

lemma scenario_facts:
  "inputs scenario_node = [0, 1, 2, 3, 4]"
  "epsilon scenario_node = 1 / 100000"
  "sqrt_var_offline scenario_node = False"
  "scenario_store ! 4 = \<lparr> data_dim = [3], data_type = TensorProto_DataType_FLOAT,
     isConst = True, data_buffer = [1, 4, 9] \<rparr>"
  "scenario2_store ! 4 = \<lparr> data_dim = [3], data_type = TensorProto_DataType_FLOAT,
     isConst = False, data_buffer = [] \<rparr>"
  "data_dim (scenario_store_resolved ! 0) = [2, 3, 4, 4]"
  "data_dim (scenario2_store_resolved ! 0) = [2, 3, 4, 4]"
  "data_buffer (scenario_store_resolved ! 4) =
     [sqrt (1 + 1 / 100000), sqrt (4 + 1 / 100000), sqrt (9 + 1 / 100000)]"
  by (simp_all add: scenario_node_def BatchNormalization_ctor_def real_externals_sel
        scenario_store_def scenario2_store_def scenario_store_folded_def
        scenario_store_resolved_def scenario2_store_resolved_def)

lemma real_externals_put:
  "float_put real_externals (1 / 100000) = ''1e-05''"
  "float_put real_externals (9 / 10) = ''0.9''"
  "data_type_str real_externals t = ''float''"
  by (simp_all add: real_externals_def)

lemma scenario_strings:
  "put_int 2 = ''2''" "put_int 3 = ''3''" "put_int 4 = ''4''"
  "print_idxs (Suc (Suc (Suc (Suc 0)))) 2 = ''[i2][i3]''"
  "print_loops [2, 3, 4, 4] 2 =
     [TAB @ ''for( uint32_t i2=0; i2<4; i2++ ) {'',
      TAB @ ''for( uint32_t i3=0; i3<4; i3++ ) {'']"
  "print_close (Suc (Suc (Suc (Suc 0)))) 2 = [TAB @ ''}'', TAB @ ''}'']"
  by (simp_all add: put_int_def to_string.simps print_idxs.simps print_loops.simps
        print_close.simps Let_def)

lemma scenario_node_facts:
  "sqrt_var_offline scenario_node_resolved = True"
  "sqrt_var_offline scenario2_node_resolved = False"
  "epsilon scenario_node_resolved = 1 / 100000"
  "momentum scenario_node_resolved = 9 / 10"
  "epsilon scenario2_node_resolved = 1 / 100000"
  "momentum scenario2_node_resolved = 9 / 10"
  "scale scenario_node_resolved = None" "bias scenario_node_resolved = None"
  "scale scenario2_node_resolved = None" "bias scenario2_node_resolved = None"
  by (simp_all add: scenario_node_resolved_def scenario_node_folded_def
        scenario2_node_resolved_def scenario2_node_folded_def scenario_node_bound_def)

lemma scenario_operands:
  "length scenario_store = 5"
  "scenario_store ! 0 = \<lparr> data_dim = [2, 3, 4, 4], data_type = TensorProto_DataType_FLOAT,
     isConst = False, data_buffer = [] \<rparr>"
  "scenario_store ! Suc 0 = \<lparr> data_dim = [3], data_type = TensorProto_DataType_FLOAT,
     isConst = True, data_buffer = [1, 1, 1] \<rparr>"
  "scenario_store ! 2 = \<lparr> data_dim = [3], data_type = TensorProto_DataType_FLOAT,
     isConst = True, data_buffer = [0, 0, 0] \<rparr>"
  "output_params scenario_node = []"
  by (simp_all add: scenario_store_def scenario_node_def BatchNormalization_ctor_def)

lemma scenario_resolved_length:
  "length scenario_store_resolved = 6"
  "length scenario2_store_resolved = 6"
  "input scenario_node_resolved = Some 0"
  "input scenario2_node_resolved = Some 0"
  by (simp_all add: scenario_store_resolved_def scenario_store_folded_def
        scenario2_store_resolved_def scenario2_store_def scenario_store_def
        scenario_node_resolved_def scenario_node_folded_def scenario2_node_resolved_def
        scenario2_node_folded_def scenario_node_bound_def)

lemma scenario_inputs:
  "length (inputs scenario_node) = 5"
  "inputs scenario_node = [0, 1, 2, 3, 4]"
  by (simp_all add: scenario_node_def BatchNormalization_ctor_def)

lemma real_externals_parse_attribute_int:
  "parse_attribute_int real_externals a =
     (if attr_type a \<noteq> AttributeProto_AttributeType_INT
      then Inl (ERROR (''Wrong attribute type for attribute '' @ attr_name a))
      else Inr (attr_i a))"
  by (simp add: real_externals_def)

lemma all_less_5:
  "(\<forall>k<5::nat. P k) = (P 0 \<and> P 1 \<and> P 2 \<and> P 3 \<and> P 4)"
proof
  assume "\<forall>k<5. P k"
  then show "P 0 \<and> P 1 \<and> P 2 \<and> P 3 \<and> P 4" by simp
next
  assume c: "P 0 \<and> P 1 \<and> P 2 \<and> P 3 \<and> P 4"
  show "\<forall>k<5. P k"
  proof (intro allI impI)
    fix k :: nat
    assume "k < 5"
    then have "k = 0 \<or> k = 1 \<or> k = 2 \<or> k = 3 \<or> k = 4" by arith
    then show "P k" using c by (elim disjE) simp_all
  qed
qed

subsection \<open>isSplatted\<close>

lemma isSplatted_loop_True:
  "0 \<le> i \<Longrightarrow>
   (isSplatted_loop ext b n v i = Inr True) =
     (\<forall>k. nat i \<le> k \<and> int k < n \<longrightarrow> k < length b \<and> \<not> float_ne ext (b ! k) v)"
proof (induction ext b n v i rule: isSplatted_loop.induct)
  case (1 ext b n v i)
  show ?case
  proof (cases "i < n")
    case False
    then show ?thesis using "1.prems"
      by (subst isSplatted_loop.simps) auto
  next
    case True
    note lt = this
    show ?thesis
    proof (cases "nat i < length b")
      case False
      have "isSplatted_loop ext b n v i = Inl OutOfBounds"
        using lt False "1.prems" by (subst isSplatted_loop.simps) simp
      moreover have "nat i \<le> nat i \<and> int (nat i) < n" using lt "1.prems" by simp
      ultimately show ?thesis using False by auto
    next
      case inb: True
      show ?thesis
      proof (cases "float_ne ext (b ! nat i) v")
        case True
        have "isSplatted_loop ext b n v i = Inr False"
          using lt inb True "1.prems" by (subst isSplatted_loop.simps) simp
        moreover have "nat i \<le> nat i \<and> int (nat i) < n" using lt "1.prems" by simp
        ultimately show ?thesis using True by auto
      next
        case False
        have step: "isSplatted_loop ext b n v i = isSplatted_loop ext b n v (i + 1)"
          using lt inb False "1.prems" by (subst isSplatted_loop.simps) simp
        have IH: "(isSplatted_loop ext b n v (i + 1) = Inr True) =
           (\<forall>k. nat (i + 1) \<le> k \<and> int k < n \<longrightarrow> k < length b \<and> \<not> float_ne ext (b ! k) v)"
          using "1.IH"[OF lt _ False] inb "1.prems" by simp
        have "nat (i + 1) = Suc (nat i)" using "1.prems" by simp
        moreover have "\<And>k. (nat i \<le> k) = (k = nat i \<or> Suc (nat i) \<le> k)" by auto
        ultimately show ?thesis unfolding step IH using inb False
          by (metis (no_types, lifting))
      qed
    qed
  qed
qed

lemma isSplatted_loop_total:
  "0 \<le> i \<Longrightarrow> nat n \<le> length b \<Longrightarrow> \<exists>r. isSplatted_loop ext b n v i = Inr r"
proof (induction ext b n v i rule: isSplatted_loop.induct)
  case (1 ext b n v i)
  show ?case
  proof (cases "i < n")
    case False
    then show ?thesis by (subst isSplatted_loop.simps) auto
  next
    case True
    then have inb: "0 \<le> i \<and> nat i < length b" using "1.prems" by auto
    show ?thesis
    proof (cases "float_ne ext (b ! nat i) v")
      case True
      then show ?thesis using \<open>i < n\<close> inb by (subst isSplatted_loop.simps) auto
    next
      case False
      have "\<exists>r. isSplatted_loop ext b n v (i + 1) = Inr r"
        using "1.IH"[OF \<open>i < n\<close> inb False] "1.prems" by simp
      then show ?thesis using \<open>i < n\<close> inb False by (subst isSplatted_loop.simps) simp
    qed
  qed
qed

lemma isSplatted_loop_all:
  assumes "nat n \<le> length b"
  shows "isSplatted_loop ext b n v 0 = Inr (\<forall>k<nat n. \<not> float_ne ext (b ! k) v)"
proof -
  obtain r where r: "isSplatted_loop ext b n v 0 = Inr r"
    using isSplatted_loop_total[of 0 n b ext v] assms by auto
  have "(isSplatted_loop ext b n v 0 = Inr True) =
          (\<forall>k. nat 0 \<le> k \<and> int k < n \<longrightarrow> k < length b \<and> \<not> float_ne ext (b ! k) v)"
    by (rule isSplatted_loop_True) simp
  also have "\<dots> = (\<forall>k<nat n. \<not> float_ne ext (b ! k) v)"
    using assms by auto
  finally show ?thesis using r by auto
qed

text \<open>
  Claim C2, as the code has it. \<open>isSplatted(t, v)\<close> tests the element type before the
  constness flag: it raises \<open>ERROR("Unimplemented")\<close> for every tensor, constant or not,
  whose element type is not single-precision float. For a single-precision tensor it
  returns false when the tensor is not constant and, when the buffer holds the tensor's
  \<open>data_num_elem()\<close> elements, it returns true iff the tensor is constant and no stored
  element compares unequal (\<open>!=\<close>) to \<open>v\<close>.
\<close>

theorem isSplatted_cases:
  "(data_type t \<noteq> TensorProto_DataType_FLOAT \<longrightarrow>
      isSplatted ext t v = Inl (ERROR ''Unimplemented''))
   \<and> (data_type t = TensorProto_DataType_FLOAT \<and> \<not> isConst t \<longrightarrow>
      isSplatted ext t v = Inr False)
   \<and> (data_type t = TensorProto_DataType_FLOAT
        \<and> length (data_buffer t) = nat (data_num_elem t) \<longrightarrow>
      isSplatted ext t v =
        Inr (isConst t \<and> (\<forall>x \<in> set (data_buffer t). \<not> float_ne ext x v)))"
proof (intro conjI impI)
  assume "data_type t \<noteq> TensorProto_DataType_FLOAT"
  then show "isSplatted ext t v = Inl (ERROR ''Unimplemented'')"
    by (simp add: isSplatted_def)
next
  assume "data_type t = TensorProto_DataType_FLOAT \<and> \<not> isConst t"
  then show "isSplatted ext t v = Inr False"
    by (simp add: isSplatted_def)
next
  assume a: "data_type t = TensorProto_DataType_FLOAT
               \<and> length (data_buffer t) = nat (data_num_elem t)"
  then have "isSplatted_loop ext (data_buffer t) (data_num_elem t) v 0 =
               Inr (\<forall>k<nat (data_num_elem t). \<not> float_ne ext (data_buffer t ! k) v)"
    by (intro isSplatted_loop_all) simp
  moreover have "(\<forall>k<nat (data_num_elem t). \<not> float_ne ext (data_buffer t ! k) v) =
                   (\<forall>x \<in> set (data_buffer t). \<not> float_ne ext x v)"
    using a by (metis in_set_conv_nth)
  ultimately show "isSplatted ext t v =
        Inr (isConst t \<and> (\<forall>x \<in> set (data_buffer t). \<not> float_ne ext x v))"
    using a by (simp add: isSplatted_def)
qed

text \<open>
  Claim C2, instances: a constant double tensor raises; a non-constant float tensor gives
  false; a constant float tensor of ones is splatted to 1, and one holding a 2 is not.
\<close>

theorem isSplatted_cases_witness:
  "isSplatted real_externals
     \<lparr> data_dim = [3], data_type = TensorProto_DataType_DOUBLE, isConst = True,
       data_buffer = [1, 1, 1] \<rparr> 1 = Inl (ERROR ''Unimplemented'')
   \<and> isSplatted real_externals
     \<lparr> data_dim = [3], data_type = TensorProto_DataType_FLOAT, isConst = False,
       data_buffer = [2, 2, 2] \<rparr> 1 = Inr False
   \<and> isSplatted real_externals
     \<lparr> data_dim = [3], data_type = TensorProto_DataType_FLOAT, isConst = True,
       data_buffer = [1, 1, 1] \<rparr> 1 = Inr True
   \<and> isSplatted real_externals
     \<lparr> data_dim = [3], data_type = TensorProto_DataType_FLOAT, isConst = True,
       data_buffer = [1, 1, 2] \<rparr> 1 = Inr False"
  using
    isSplatted_cases [of "\<lparr> data_dim = [3], data_type = TensorProto_DataType_DOUBLE,
       isConst = True, data_buffer = [1, 1, 1::real] \<rparr>" real_externals 1]
    isSplatted_cases [of "\<lparr> data_dim = [3], data_type = TensorProto_DataType_FLOAT,
       isConst = False, data_buffer = [2, 2, 2::real] \<rparr>" real_externals 1]
    isSplatted_cases [of "\<lparr> data_dim = [3], data_type = TensorProto_DataType_FLOAT,
       isConst = True, data_buffer = [1, 1, 1::real] \<rparr>" real_externals 1]
    isSplatted_cases [of "\<lparr> data_dim = [3], data_type = TensorProto_DataType_FLOAT,
       isConst = True, data_buffer = [1, 1, 2::real] \<rparr>" real_externals 1]
  by (simp add: data_num_elem_def real_externals_def)

text \<open>
  Claim C2 as stated says that every non-constant tensor gives false. A non-constant
  tensor of doubles does not: the call raises \<open>ERROR("Unimplemented")\<close>.
\<close>

theorem isSplatted_nonconst_counterexample:
  "isSplatted real_externals
     \<lparr> data_dim = [3], data_type = TensorProto_DataType_DOUBLE, isConst = False,
       data_buffer = [] \<rparr> 1 = Inl (ERROR ''Unimplemented'')
   \<and> isSplatted real_externals
     \<lparr> data_dim = [3], data_type = TensorProto_DataType_DOUBLE, isConst = False,
       data_buffer = [] \<rparr> 1 \<noteq> Inr False"
  by (simp add: isSplatted_def)

subsection \<open>resolve, stage by stage\<close>

lemma calculateSqrtVarOffline_loop_result:
  "0 \<le> i \<Longrightarrow> calculateSqrtVarOffline_loop ext eps n v i = Inr v' \<Longrightarrow>
   length v' = length v \<and>
   (\<forall>k<length v. v' ! k =
      (if nat i \<le> k \<and> int k < n then float_sqrt ext (float_add ext (v ! k) eps)
       else v ! k))"
proof (induction ext eps n v i rule: calculateSqrtVarOffline_loop.induct)
  case (1 ext eps n v i)
  show ?case
  proof (cases "i < n")
    case False
    then have "v' = v" using "1.prems"(2)
      by (subst (asm) calculateSqrtVarOffline_loop.simps) simp
    then show ?thesis using False by auto
  next
    case True
    have inb: "0 \<le> i \<and> nat i < length v"
    proof (rule ccontr)
      assume "\<not> (0 \<le> i \<and> nat i < length v)"
      then have "calculateSqrtVarOffline_loop ext eps n v i = Inl OutOfBounds"
        using True by (subst calculateSqrtVarOffline_loop.simps) auto
      then show False using "1.prems"(2) by simp
    qed
    let ?w = "v[nat i := float_sqrt ext (float_add ext (v ! nat i) eps)]"
    have step: "calculateSqrtVarOffline_loop ext eps n ?w (i + 1) = Inr v'"
      using True inb "1.prems"(2)
      by (subst (asm) calculateSqrtVarOffline_loop.simps) simp
    have IH: "length v' = length ?w \<and>
      (\<forall>k<length ?w. v' ! k =
         (if nat (i + 1) \<le> k \<and> int k < n then float_sqrt ext (float_add ext (?w ! k) eps)
          else ?w ! k))"
      using "1.IH"[OF True inb _ step] "1.prems"(1) by simp
    have suc: "nat (i + 1) = Suc (nat i)" using "1.prems"(1) by simp
    show ?thesis
    proof (intro conjI allI impI)
      show "length v' = length v" using IH by simp
    next
      fix k assume k: "k < length v"
      then have eq: "v' ! k =
         (if Suc (nat i) \<le> k \<and> int k < n then float_sqrt ext (float_add ext (?w ! k) eps)
          else ?w ! k)"
        using IH suc by simp
      show "v' ! k = (if nat i \<le> k \<and> int k < n
                      then float_sqrt ext (float_add ext (v ! k) eps) else v ! k)"
      proof (cases "k = nat i")
        case True
        then show ?thesis using eq k \<open>i < n\<close> "1.prems"(1) by simp
      next
        case False
        then have "?w ! k = v ! k" by simp
        moreover have "(Suc (nat i) \<le> k) = (nat i \<le> k)" using False by auto
        ultimately show ?thesis using eq by simp
      qed
    qed
  qed
qed

lemma calculateSqrtVarOffline_loop_total:
  "0 \<le> i \<Longrightarrow> nat n \<le> length v \<Longrightarrow>
   \<exists>v'. calculateSqrtVarOffline_loop ext eps n v i = Inr v'"
proof (induction ext eps n v i rule: calculateSqrtVarOffline_loop.induct)
  case (1 ext eps n v i)
  show ?case
  proof (cases "i < n")
    case False
    then show ?thesis by (subst calculateSqrtVarOffline_loop.simps) auto
  next
    case True
    then have inb: "0 \<le> i \<and> nat i < length v" using "1.prems" by auto
    have "\<exists>v'. calculateSqrtVarOffline_loop ext eps n
             (v[nat i := float_sqrt ext (float_add ext (v ! nat i) eps)]) (i + 1) = Inr v'"
      using "1.IH"[OF True inb] "1.prems" by simp
    then show ?thesis using True inb by (subst calculateSqrtVarOffline_loop.simps) simp
  qed
qed

lemma resolve_bind_fields:
  "input (resolve_bind n) = Some (inputs n ! 0)"
  "scale (resolve_bind n) = Some (inputs n ! 1)"
  "bias (resolve_bind n) = Some (inputs n ! 2)"
  "mean (resolve_bind n) = Some (inputs n ! 3)"
  "var (resolve_bind n) = Some (inputs n ! 4)"
  "inputs (resolve_bind n) = inputs n"
  "epsilon (resolve_bind n) = epsilon n"
  "momentum (resolve_bind n) = momentum n"
  "sqrt_var_offline (resolve_bind n) = sqrt_var_offline n"
  "output_params (resolve_bind n) = output_params n"
  "input_params (resolve_bind n) =
     input_params n @ [(inputs n ! 0, ''X''), (inputs n ! 1, ''scale''),
       (inputs n ! 2, ''bias''), (inputs n ! 3, ''mean''), (inputs n ! 4, ''var'')]"
  by (simp_all add: resolve_bind_def register_input_def Let_def)

lemma case_sum_Inr_iff:
  "((case r of Inl e \<Rightarrow> Inl e | Inr x \<Rightarrow> f x) = Inr y) = (\<exists>x. r = Inr x \<and> f x = Inr y)"
  by (cases r) auto

lemma resolve_typeConstraint_Inr:
  "(resolve_typeConstraint st a = Inr u) =
     (a < length st \<and> typeConstraint_plainFloatingPoints (st ! a))"
  by (simp add: resolve_typeConstraint_def deref_def)

lemma resolve_types_Inr:
  "(resolve_types st n = Inr u) =
     (\<forall>k<5. inputs n ! k < length st
            \<and> typeConstraint_plainFloatingPoints (st ! (inputs n ! k)))"
  unfolding all_less_5 resolve_types_def
  by (simp add: case_sum_Inr_iff resolve_typeConstraint_Inr)

lemma resolve_fold_Inr:
  assumes ok: "resolve_fold ext st m = Inr (st1, m1)"
    and m: "scale m = Some s" "bias m = Some b" "var m = Some a"
  shows "s < length st \<and> b < length st \<and> a < length st"
    and "\<exists>rs rb. isSplatted ext (st ! s) (float_1_0 ext) = Inr rs
           \<and> isSplatted ext (st ! b) (float_0_0 ext) = Inr rb
           \<and> scale m1 = (if rs then None else Some s)
           \<and> bias m1 = (if rb then None else Some b)"
    and "sqrt_var_offline m1 = (isConst (st ! a) \<or> sqrt_var_offline m)"
    and "isConst (st ! a) \<longrightarrow>
           (\<exists>v. calculateSqrtVarOffline_loop ext (epsilon m) (data_num_elem (st ! a))
                   (data_buffer (st ! a)) 0 = Inr v
                \<and> st1 = st[a := (st ! a)\<lparr>data_buffer := v\<rparr>])"
    and "\<not> isConst (st ! a) \<longrightarrow> st1 = st"
    and "input m1 = input m \<and> mean m1 = mean m \<and> var m1 = var m
           \<and> epsilon m1 = epsilon m \<and> momentum m1 = momentum m
           \<and> inputs m1 = inputs m \<and> input_params m1 = input_params m
           \<and> output_params m1 = output_params m \<and> output m1 = output m"
proof -
  obtain rs where rs: "isSplatted_at ext st (scale m) (float_1_0 ext) = Inr rs"
    using ok by (cases "isSplatted_at ext st (scale m) (float_1_0 ext)")
      (simp_all add: resolve_fold_def)
  define n1 where "n1 = (if rs then m\<lparr>scale := None\<rparr> else m)"
  have n1: "bias n1 = Some b" "var n1 = Some a" "scale n1 = (if rs then None else Some s)"
    by (simp_all add: n1_def m)
  obtain rb where rb: "isSplatted_at ext st (bias n1) (float_0_0 ext) = Inr rb"
    using ok rs by (cases "isSplatted_at ext st (bias n1) (float_0_0 ext)")
      (simp_all add: resolve_fold_def Let_def n1_def)
  define n2 where "n2 = (if rb then n1\<lparr>bias := None\<rparr> else n1)"
  have n2: "var n2 = Some a" "scale n2 = (if rs then None else Some s)"
    "bias n2 = (if rb then None else Some b)" "epsilon n2 = epsilon m"
    by (simp_all add: n2_def n1_def m)
  have same: "input n2 = input m \<and> mean n2 = mean m \<and> var n2 = var m
           \<and> epsilon n2 = epsilon m \<and> momentum n2 = momentum m
           \<and> inputs n2 = inputs m \<and> input_params n2 = input_params m
           \<and> output_params n2 = output_params m \<and> output n2 = output m
           \<and> sqrt_var_offline n2 = sqrt_var_offline m"
    by (simp add: n2_def n1_def)
  have rest: "(case deref st a of Inl e \<Rightarrow> Inl e
      | Inr t \<Rightarrow>
          if isConst t then
            (case calculateSqrtVarOffline ext st n2 of
               Inl e \<Rightarrow> Inl e
             | Inr st' \<Rightarrow> Inr (st', n2\<lparr>sqrt_var_offline := True\<rparr>))
          else Inr (st, n2)) = Inr (st1, m1)"
    using ok rs rb unfolding resolve_fold_def Let_def n1_def n2_def
    by (cases rs; cases rb) (simp_all add: m cong: sum.case_cong if_cong)
  have a_lt: "a < length st"
    using rest by (auto simp: deref_def split: if_splits)
  then have da: "deref st a = Inr (st ! a)" by (simp add: deref_def)
  have s_lt: "s < length st" and s_sp: "isSplatted ext (st ! s) (float_1_0 ext) = Inr rs"
    using rs m(1) by (auto simp: isSplatted_at_def deref_def split: if_splits)
  have b_lt: "b < length st" and b_sp: "isSplatted ext (st ! b) (float_0_0 ext) = Inr rb"
    using rb n1(1) by (auto simp: isSplatted_at_def deref_def split: if_splits)
  show "s < length st \<and> b < length st \<and> a < length st" using s_lt b_lt a_lt by simp
  have fin: "if isConst (st ! a)
     then (\<exists>v. calculateSqrtVarOffline_loop ext (epsilon m) (data_num_elem (st ! a))
                   (data_buffer (st ! a)) 0 = Inr v
              \<and> st1 = st[a := (st ! a)\<lparr>data_buffer := v\<rparr>])
          \<and> m1 = n2\<lparr>sqrt_var_offline := True\<rparr>
     else st1 = st \<and> m1 = n2"
  proof (cases "isConst (st ! a)")
    case True
    then obtain st2 where c: "calculateSqrtVarOffline ext st n2 = Inr st2"
      and e: "st1 = st2" "m1 = n2\<lparr>sqrt_var_offline := True\<rparr>"
      using rest da by (cases "calculateSqrtVarOffline ext st n2") auto
    obtain v where "calculateSqrtVarOffline_loop ext (epsilon m) (data_num_elem (st ! a))
                   (data_buffer (st ! a)) 0 = Inr v" "st2 = st[a := (st ! a)\<lparr>data_buffer := v\<rparr>]"
      using c n2(1) n2(4) da
      by (cases "calculateSqrtVarOffline_loop ext (epsilon m) (data_num_elem (st ! a))
                   (data_buffer (st ! a)) 0") (auto simp: calculateSqrtVarOffline_def)
    then show ?thesis using True e by auto
  next
    case False
    then show ?thesis using rest da by simp
  qed
  show "\<exists>rs rb. isSplatted ext (st ! s) (float_1_0 ext) = Inr rs
           \<and> isSplatted ext (st ! b) (float_0_0 ext) = Inr rb
           \<and> scale m1 = (if rs then None else Some s)
           \<and> bias m1 = (if rb then None else Some b)"
    using s_sp b_sp fin n2 by (intro exI[of _ rs] exI[of _ rb]) (auto split: if_splits)
  show "sqrt_var_offline m1 = (isConst (st ! a) \<or> sqrt_var_offline m)"
    using fin same by (auto split: if_splits)
  show "isConst (st ! a) \<longrightarrow>
           (\<exists>v. calculateSqrtVarOffline_loop ext (epsilon m) (data_num_elem (st ! a))
                   (data_buffer (st ! a)) 0 = Inr v
                \<and> st1 = st[a := (st ! a)\<lparr>data_buffer := v\<rparr>])"
    using fin by simp
  show "\<not> isConst (st ! a) \<longrightarrow> st1 = st" using fin by simp
  show "input m1 = input m \<and> mean m1 = mean m \<and> var m1 = var m
           \<and> epsilon m1 = epsilon m \<and> momentum m1 = momentum m
           \<and> inputs m1 = inputs m \<and> input_params m1 = input_params m
           \<and> output_params m1 = output_params m \<and> output m1 = output m"
    using fin same by (auto split: if_splits)
qed

lemma resolve_output_Inr:
  assumes "resolve_output ext st1 m1 = Inr (st', n')" and "input m1 = Some a"
  shows "a < length st1"
    and "st' = st1 @ [(new_Tensor ext)\<lparr>data_dim := data_dim (st1 ! a),
                        data_type := data_type (st1 ! a)\<rparr>]"
    and "output n' = Some (length st1)"
    and "output_params n' = output_params m1 @ [(length st1, ''output'')]"
    and "input n' = input m1 \<and> scale n' = scale m1 \<and> bias n' = bias m1
           \<and> mean n' = mean m1 \<and> var n' = var m1
           \<and> epsilon n' = epsilon m1 \<and> momentum n' = momentum m1
           \<and> sqrt_var_offline n' = sqrt_var_offline m1
           \<and> inputs n' = inputs m1 \<and> input_params n' = input_params m1"
  using assms
  by (auto simp: resolve_output_def deref_def register_output_def Let_def
        split: sum.splits if_splits)

lemma resolve_Inr_stages:
  assumes "resolve ext st n = Inr (st', n')"
  shows "length (inputs n) = 5"
    and "\<exists>u. resolve_types st (resolve_bind n) = Inr u"
    and "\<exists>st1 m1. resolve_fold ext st (resolve_bind n) = Inr (st1, m1)
           \<and> resolve_output ext st1 m1 = Inr (st', n')"
  using assms
  by (auto simp: resolve_def split: sum.splits if_splits)

lemma calculateSqrtVarOffline_loop_bound:
  "0 \<le> i \<Longrightarrow> calculateSqrtVarOffline_loop ext eps n v i = Inr v' \<Longrightarrow> i < n \<Longrightarrow>
   nat n \<le> length v"
proof (induction ext eps n v i rule: calculateSqrtVarOffline_loop.induct)
  case (1 ext eps n v i)
  have inb: "0 \<le> i \<and> nat i < length v"
  proof (rule ccontr)
    assume "\<not> (0 \<le> i \<and> nat i < length v)"
    then have "calculateSqrtVarOffline_loop ext eps n v i = Inl OutOfBounds"
      using \<open>i < n\<close> by (subst calculateSqrtVarOffline_loop.simps) auto
    then show False using "1.prems"(2) by simp
  qed
  let ?w = "v[nat i := float_sqrt ext (float_add ext (v ! nat i) eps)]"
  have step: "calculateSqrtVarOffline_loop ext eps n ?w (i + 1) = Inr v'"
    using \<open>i < n\<close> inb "1.prems"(2)
    by (subst (asm) calculateSqrtVarOffline_loop.simps) simp
  show ?case
  proof (cases "i + 1 < n")
    case True
    have "nat n \<le> length ?w"
      using "1.IH"[OF \<open>i < n\<close> inb _ step True] "1.prems"(1) by simp
    then show ?thesis by simp
  next
    case False
    then have "n = i + 1" using \<open>i < n\<close> by simp
    moreover have "nat (i + 1) = Suc (nat i)" using inb by linarith
    ultimately show ?thesis using inb by simp
  qed
qed

lemma resolve_Inr:
  assumes "resolve ext st n = Inr (st', n')"
  obtains st1 m1 where
    "length (inputs n) = 5"
    "\<forall>k<5. inputs n ! k < length st
           \<and> typeConstraint_plainFloatingPoints (st ! (inputs n ! k))"
    "resolve_fold ext st (resolve_bind n) = Inr (st1, m1)"
    "resolve_output ext st1 m1 = Inr (st', n')"
proof -
  from resolve_Inr_stages[OF assms] obtain u st1 m1 where
    l: "length (inputs n) = 5" and
    t: "resolve_types st (resolve_bind n) = Inr u" and
    f: "resolve_fold ext st (resolve_bind n) = Inr (st1, m1)" and
    out: "resolve_output ext st1 m1 = Inr (st', n')"
    by blast
  have "\<forall>k<5. inputs n ! k < length st
           \<and> typeConstraint_plainFloatingPoints (st ! (inputs n ! k))"
    using t by (simp add: resolve_types_Inr resolve_bind_fields)
  then show thesis using that l f out by blast
qed

lemma print_eq:
  assumes "input n = Some a" "a < length st" "2 \<le> length (data_dim (st ! a))"
  shows "print ext st n =
     Inr (print_comment ext n
          @ print_epsilon ext n
          @ print_batch_chan (data_dim (st ! a) ! 0) (data_dim (st ! a) ! 1)
          @ print_loops (data_dim (st ! a)) 2
          @ print_tmp_X ext n (data_type_str ext (st ! a))
              (''[b][c]'' @ print_idxs (length (data_dim (st ! a))) 2)
          @ print_output ext n (''[b][c]'' @ print_idxs (length (data_dim (st ! a))) 2)
          @ print_close (length (data_dim (st ! a))) 2
          @ [TAB @ ''}'', TAB @ ''}''])"
proof -
  have "0 < length (data_dim (st ! a))" "1 < length (data_dim (st ! a))"
    using assms(3) by linarith+
  then have "vector_at (data_dim (st ! a)) 0 = Inr (data_dim (st ! a) ! 0)"
    "vector_at (data_dim (st ! a)) 1 = Inr (data_dim (st ! a) ! 1)"
    unfolding vector_at_def by simp_all
  then show ?thesis
    using assms(1,2) by (simp add: print_def deref_def Let_def)
qed

text \<open>What resolution leaves of the operands and of the node.\<close>

lemma resolve_Inr_state:
  assumes ok: "resolve ext st n = Inr (st', n')"
  shows "length st' = Suc (length st)"
    and "\<forall>k<5. inputs n ! k < length st"
    and "\<forall>a<length st. data_dim (st' ! a) = data_dim (st ! a)
           \<and> data_type (st' ! a) = data_type (st ! a)
           \<and> isConst (st' ! a) = isConst (st ! a)"
    and "\<forall>a<length st. a \<noteq> inputs n ! 4 \<longrightarrow> st' ! a = st ! a"
    and "st' ! length st = (new_Tensor ext)\<lparr>data_dim := data_dim (st ! (inputs n ! 0)),
           data_type := data_type (st ! (inputs n ! 0))\<rparr>"
    and "input n' = Some (inputs n ! 0) \<and> mean n' = Some (inputs n ! 3)
           \<and> var n' = Some (inputs n ! 4) \<and> output n' = Some (length st)
           \<and> epsilon n' = epsilon n \<and> momentum n' = momentum n
           \<and> output_params n' = output_params n @ [(length st, ''output'')]"
    and "sqrt_var_offline n' = (isConst (st ! (inputs n ! 4)) \<or> sqrt_var_offline n)"
proof -
  from ok obtain st1 m1 where
    l: "length (inputs n) = 5" and
    t: "\<forall>k<5. inputs n ! k < length st
           \<and> typeConstraint_plainFloatingPoints (st ! (inputs n ! k))" and
    f: "resolve_fold ext st (resolve_bind n) = Inr (st1, m1)" and
    out: "resolve_output ext st1 m1 = Inr (st', n')"
    by (rule resolve_Inr)
  note F = resolve_fold_Inr[OF f resolve_bind_fields(2) resolve_bind_fields(3)
             resolve_bind_fields(5)]
  have i1: "input m1 = Some (inputs n ! 0)" using F(6) by (simp add: resolve_bind_fields)
  note O = resolve_output_Inr[OF out i1]
  let ?a = "inputs n ! 4"
  have st1: "length st1 = length st
     \<and> (\<forall>a<length st. data_dim (st1 ! a) = data_dim (st ! a)
           \<and> data_type (st1 ! a) = data_type (st ! a)
           \<and> isConst (st1 ! a) = isConst (st ! a))
     \<and> (\<forall>a<length st. a \<noteq> ?a \<longrightarrow> st1 ! a = st ! a)"
  proof (cases "isConst (st ! ?a)")
    case True
    then obtain v where "st1 = st[?a := (st ! ?a)\<lparr>data_buffer := v\<rparr>]"
      using F(4) by blast
    moreover have "?a < length st" using t by simp
    ultimately show ?thesis by (auto simp: nth_list_update)
  next
    case False
    then show ?thesis using F(5) by simp
  qed
  show "length st' = Suc (length st)" using O(2) st1 by simp
  show "\<forall>k<5. inputs n ! k < length st" using t by simp
  show "\<forall>a<length st. data_dim (st' ! a) = data_dim (st ! a)
           \<and> data_type (st' ! a) = data_type (st ! a)
           \<and> isConst (st' ! a) = isConst (st ! a)"
    using O(2) st1 by (simp add: nth_append)
  show "\<forall>a<length st. a \<noteq> inputs n ! 4 \<longrightarrow> st' ! a = st ! a"
    using O(2) st1 by (simp add: nth_append)
  have a0: "inputs n ! 0 < length st" using t by simp
  show "st' ! length st = (new_Tensor ext)\<lparr>data_dim := data_dim (st ! (inputs n ! 0)),
           data_type := data_type (st ! (inputs n ! 0))\<rparr>"
    using O(2) st1 a0 by (simp add: nth_append)
  show "input n' = Some (inputs n ! 0) \<and> mean n' = Some (inputs n ! 3)
           \<and> var n' = Some (inputs n ! 4) \<and> output n' = Some (length st)
           \<and> epsilon n' = epsilon n \<and> momentum n' = momentum n
           \<and> output_params n' = output_params n @ [(length st, ''output'')]"
    using O(3,4,5) F(6) st1 by (simp add: resolve_bind_fields)
  show "sqrt_var_offline n' = (isConst (st ! (inputs n ! 4)) \<or> sqrt_var_offline n)"
    using O(5) F(3) by (simp add: resolve_bind_fields)
qed

lemma resolve_Inr_folded:
  assumes ok: "resolve ext st n = Inr (st', n')"
    and c: "isConst (st ! (inputs n ! 4))"
  shows "\<exists>v. calculateSqrtVarOffline_loop ext (epsilon n)
                (data_num_elem (st ! (inputs n ! 4)))
                (data_buffer (st ! (inputs n ! 4))) 0 = Inr v
             \<and> data_buffer (st' ! (inputs n ! 4)) = v"
proof -
  from ok obtain st1 m1 where
    t: "\<forall>k<5. inputs n ! k < length st
           \<and> typeConstraint_plainFloatingPoints (st ! (inputs n ! k))" and
    f: "resolve_fold ext st (resolve_bind n) = Inr (st1, m1)" and
    out: "resolve_output ext st1 m1 = Inr (st', n')"
    by (rule resolve_Inr)
  note F = resolve_fold_Inr[OF f resolve_bind_fields(2) resolve_bind_fields(3)
             resolve_bind_fields(5)]
  have i1: "input m1 = Some (inputs n ! 0)" using F(6) by (simp add: resolve_bind_fields)
  note O = resolve_output_Inr[OF out i1]
  let ?a = "inputs n ! 4"
  have a: "?a < length st" using t by simp
  obtain v where v: "calculateSqrtVarOffline_loop ext (epsilon n)
                (data_num_elem (st ! ?a)) (data_buffer (st ! ?a)) 0 = Inr v"
    and st1: "st1 = st[?a := (st ! ?a)\<lparr>data_buffer := v\<rparr>]"
    using F(4) c by (auto simp: resolve_bind_fields)
  have "st' ! ?a = (st ! ?a)\<lparr>data_buffer := v\<rparr>"
    using O(2) st1 a by (simp add: nth_append)
  then show ?thesis using v by simp
qed

subsection \<open>Variance folding\<close>

text \<open>
  The variance of single-precision floats. After a successful \<open>resolve\<close>, with the
  variance operand at \<open>inputs[4]\<close>: if it is constant and its \<open>data_type\<close> is
  \<open>FLOAT\<close>, its buffer holds its \<open>data_num_elem()\<close> elements, keeps its length, every
  one of these elements is \<open>sqrt(original + epsilon)\<close>, \<open>sqrt_var_offline\<close> is true,
  and for an input of rank at least 2 \<open>print\<close> emits no epsilon declaration and the
  statement that divides by \<open>( var[c] )\<close>. If it is not constant, the tensor is as it
  was, \<open>sqrt_var_offline\<close> is as it was (false, as the constructor leaves it), and
  \<open>print\<close> then declares epsilon and emits \<open>( sqrt( var[c] + epsilon))\<close> in the
  innermost statement.
\<close>

lemma resolve_variance_folding_float:
  assumes ok: "resolve ext st n = Inr (st', n')"
  shows
    "let a = inputs n ! 4; V = st ! a; V' = st' ! a;
         X = st' ! (inputs n ! 0); dims = data_dim X;
         idxs = ''[b][c]'' @ print_idxs (length dims) 2
     in (isConst V \<and> data_type V = TensorProto_DataType_FLOAT \<longrightarrow>
           nat (data_num_elem V) \<le> length (data_buffer V)
         \<and> length (data_buffer V') = length (data_buffer V)
         \<and> (\<forall>k<nat (data_num_elem V).
               data_buffer V' ! k =
                 float_sqrt ext (float_add ext (data_buffer V ! k) (epsilon n)))
         \<and> sqrt_var_offline n' = True
         \<and> (2 \<le> length dims \<longrightarrow>
               print ext st' n' =
                 Inr (print_comment ext n'
                      @ print_batch_chan (dims ! 0) (dims ! 1)
                      @ print_loops dims 2
                      @ [INDT_2 ext @ data_type_str ext X @ '' tmp_X = ( X'' @ idxs
                           @ '' - mean[c] ) / ( var[c] );'']
                      @ print_output ext n' idxs
                      @ print_close (length dims) 2
                      @ [TAB @ ''}'', TAB @ ''}''])))
      \<and> (\<not> isConst V \<longrightarrow>
           V' = V
         \<and> sqrt_var_offline n' = sqrt_var_offline n
         \<and> (sqrt_var_offline n = False \<and> 2 \<le> length dims \<longrightarrow>
               print ext st' n' =
                 Inr (print_comment ext n'
                      @ [INDT_1 ext @ ''float epsilon = '' @ float_put ext (epsilon n) @ '';'']
                      @ print_batch_chan (dims ! 0) (dims ! 1)
                      @ print_loops dims 2
                      @ [INDT_2 ext @ data_type_str ext X @ '' tmp_X = ( X'' @ idxs
                           @ '' - mean[c] ) / ( sqrt( var[c] + epsilon));'']
                      @ print_output ext n' idxs
                      @ print_close (length dims) 2
                      @ [TAB @ ''}'', TAB @ ''}''])))"
proof -
  note S = resolve_Inr_state[OF ok]
  let ?iv = "inputs n ! 4"
  let ?ix = "inputs n ! 0"
  have a: "?iv < length st" and a0: "?ix < length st" using S(2) by simp_all
  have a0': "?ix < length st'" using a0 S(1) by simp
  have inp: "input n' = Some ?ix" and eps: "epsilon n' = epsilon n" using S(6) by simp_all
  note P = print_eq[OF inp a0', of ext]
  have const: "isConst (st ! ?iv) \<Longrightarrow>
           nat (data_num_elem (st ! ?iv)) \<le> length (data_buffer (st ! ?iv))
         \<and> length (data_buffer (st' ! ?iv)) = length (data_buffer (st ! ?iv))
         \<and> (\<forall>k<nat (data_num_elem (st ! ?iv)).
               data_buffer (st' ! ?iv) ! k =
                 float_sqrt ext (float_add ext (data_buffer (st ! ?iv) ! k) (epsilon n)))"
  proof -
    assume c: "isConst (st ! ?iv)"
    from resolve_Inr_folded[OF ok c] obtain v where
      v: "calculateSqrtVarOffline_loop ext (epsilon n) (data_num_elem (st ! ?iv))
            (data_buffer (st ! ?iv)) 0 = Inr v"
      and b: "data_buffer (st' ! ?iv) = v" by blast
    have le: "nat (data_num_elem (st ! ?iv)) \<le> length (data_buffer (st ! ?iv))"
    proof (cases "0 < data_num_elem (st ! ?iv)")
      case True
      then show ?thesis using calculateSqrtVarOffline_loop_bound[OF _ v] by simp
    next
      case False
      then show ?thesis by simp
    qed
    have R: "length v = length (data_buffer (st ! ?iv)) \<and>
       (\<forall>k<length (data_buffer (st ! ?iv)). v ! k =
          (if nat 0 \<le> k \<and> int k < data_num_elem (st ! ?iv)
           then float_sqrt ext (float_add ext (data_buffer (st ! ?iv) ! k) (epsilon n))
           else data_buffer (st ! ?iv) ! k))"
      by (rule calculateSqrtVarOffline_loop_result[OF _ v]) simp
    have "\<forall>k<nat (data_num_elem (st ! ?iv)). v ! k =
            float_sqrt ext (float_add ext (data_buffer (st ! ?iv) ! k) (epsilon n))"
    proof (intro allI impI)
      fix k assume k: "k < nat (data_num_elem (st ! ?iv))"
      then have "k < length (data_buffer (st ! ?iv))" using le by simp
      moreover have "int k < data_num_elem (st ! ?iv)" using k by simp
      ultimately show "v ! k =
            float_sqrt ext (float_add ext (data_buffer (st ! ?iv) ! k) (epsilon n))"
        using R by simp
    qed
    then show ?thesis using le R b by simp
  qed
  have nonconst: "\<not> isConst (st ! ?iv) \<Longrightarrow> st' ! ?iv = st ! ?iv"
  proof -
    assume c: "\<not> isConst (st ! ?iv)"
    from ok obtain st1 m1 where
      f: "resolve_fold ext st (resolve_bind n) = Inr (st1, m1)" and
      out: "resolve_output ext st1 m1 = Inr (st', n')"
      by (rule resolve_Inr)
    note F = resolve_fold_Inr[OF f resolve_bind_fields(2) resolve_bind_fields(3)
               resolve_bind_fields(5)]
    have i1: "input m1 = Some (inputs n ! 0)" using F(6) by (simp add: resolve_bind_fields)
    note O = resolve_output_Inr[OF out i1]
    have "st1 = st" using F(5) c by simp
    then show ?thesis using O(2) a by (simp add: nth_append)
  qed
  show ?thesis
    unfolding Let_def
  proof (intro conjI impI)
    assume "isConst (st ! ?iv) \<and> data_type (st ! ?iv) = TensorProto_DataType_FLOAT"
    then have c: "isConst (st ! ?iv)" by simp
    show "nat (data_num_elem (st ! ?iv)) \<le> length (data_buffer (st ! ?iv))"
      using const[OF c] by simp
    show "length (data_buffer (st' ! ?iv)) = length (data_buffer (st ! ?iv))"
      using const[OF c] by simp
    show "\<forall>k<nat (data_num_elem (st ! ?iv)).
               data_buffer (st' ! ?iv) ! k =
                 float_sqrt ext (float_add ext (data_buffer (st ! ?iv) ! k) (epsilon n))"
      using const[OF c] by simp
    show "sqrt_var_offline n' = True" using S(7) c by simp
    then have "print_epsilon ext n' = []"
      "\<And>ty ix. print_tmp_X ext n' ty ix =
         [INDT_2 ext @ ty @ '' tmp_X = ( X'' @ ix @ '' - mean[c] ) / ( var[c] );'']"
      by (simp_all add: print_epsilon_def print_tmp_X_def)
    then show "print ext st' n' =
                 Inr (print_comment ext n'
                      @ print_batch_chan (data_dim (st' ! ?ix) ! 0) (data_dim (st' ! ?ix) ! 1)
                      @ print_loops (data_dim (st' ! ?ix)) 2
                      @ [INDT_2 ext @ data_type_str ext (st' ! ?ix) @ '' tmp_X = ( X''
                           @ (''[b][c]'' @ print_idxs (length (data_dim (st' ! ?ix))) 2)
                           @ '' - mean[c] ) / ( var[c] );'']
                      @ print_output ext n'
                          (''[b][c]'' @ print_idxs (length (data_dim (st' ! ?ix))) 2)
                      @ print_close (length (data_dim (st' ! ?ix))) 2
                      @ [TAB @ ''}'', TAB @ ''}''])"
      if "2 \<le> length (data_dim (st' ! ?ix))"
      using P[OF that] by simp
  next
    assume c: "\<not> isConst (st ! ?iv)"
    show "st' ! ?iv = st ! ?iv" using nonconst[OF c] .
    show "sqrt_var_offline n' = sqrt_var_offline n" using S(7) c by simp
    show "print ext st' n' =
                 Inr (print_comment ext n'
                      @ [INDT_1 ext @ ''float epsilon = '' @ float_put ext (epsilon n) @ '';'']
                      @ print_batch_chan (data_dim (st' ! ?ix) ! 0) (data_dim (st' ! ?ix) ! 1)
                      @ print_loops (data_dim (st' ! ?ix)) 2
                      @ [INDT_2 ext @ data_type_str ext (st' ! ?ix) @ '' tmp_X = ( X''
                           @ (''[b][c]'' @ print_idxs (length (data_dim (st' ! ?ix))) 2)
                           @ '' - mean[c] ) / ( sqrt( var[c] + epsilon));'']
                      @ print_output ext n'
                          (''[b][c]'' @ print_idxs (length (data_dim (st' ! ?ix))) 2)
                      @ print_close (length (data_dim (st' ! ?ix))) 2
                      @ [TAB @ ''}'', TAB @ ''}''])"
      if h: "sqrt_var_offline n = False \<and> 2 \<le> length (data_dim (st' ! ?ix))"
    proof -
      have "sqrt_var_offline n' = False" using S(7) c h by simp
      then have "print_epsilon ext n' =
          [INDT_1 ext @ ''float epsilon = '' @ float_put ext (epsilon n) @ '';'']"
        "\<And>ty ix. print_tmp_X ext n' ty ix =
         [INDT_2 ext @ ty @ '' tmp_X = ( X'' @ ix
            @ '' - mean[c] ) / ( sqrt( var[c] + epsilon));'']"
        by (simp_all add: print_epsilon_def print_tmp_X_def eps)
      then show ?thesis using P h by simp
    qed
  qed
qed

text \<open>
  The two scenarios of the specification: constant variance \<open>[1,4,9]\<close> of
  single-precision floats, and the same operands with a variance that is not constant.
\<close>

lemma resolve_variance_folding_float_scenarios:
  "resolve real_externals scenario_store scenario_node =
     Inr (scenario_store_resolved, scenario_node_resolved)
   \<and> isConst (scenario_store ! 4)
   \<and> data_buffer (scenario_store_resolved ! 4) =
       [sqrt (1 + 1 / 100000), sqrt (4 + 1 / 100000), sqrt (9 + 1 / 100000)]
   \<and> sqrt_var_offline scenario_node_resolved
   \<and> print real_externals scenario_store_resolved scenario_node_resolved =
       Inr [TAB @ ''/* BatchNormalization'',
            TAB @ '' * epsilon = 1e-05'',
            TAB @ '' * momentum = 0.9'',
            TAB @ '' */'',
            [],
            TAB @ ''for( int32_t b=0; b<2; b++ ) {'',
            TAB @ ''for( int32_t c=0; c<3; c++ ) {'',
            TAB @ ''for( uint32_t i2=0; i2<4; i2++ ) {'',
            TAB @ ''for( uint32_t i3=0; i3<4; i3++ ) {'',
            TAB @ TAB @ ''float tmp_X = ( X[b][c][i2][i3] - mean[c] ) / ( var[c] );'',
            TAB @ TAB @ ''output[b][c][i2][i3] = tmp_X ;'',
            TAB @ ''}'', TAB @ ''}'', TAB @ ''}'', TAB @ ''}'']
   \<and> resolve real_externals scenario2_store scenario_node =
       Inr (scenario2_store_resolved, scenario2_node_resolved)
   \<and> \<not> isConst (scenario2_store ! 4)
   \<and> scenario2_store_resolved ! 4 = scenario2_store ! 4
   \<and> \<not> sqrt_var_offline scenario2_node_resolved
   \<and> print real_externals scenario2_store_resolved scenario2_node_resolved =
       Inr [TAB @ ''/* BatchNormalization'',
            TAB @ '' * epsilon = 1e-05'',
            TAB @ '' * momentum = 0.9'',
            TAB @ '' */'',
            [],
            TAB @ ''float epsilon = 1e-05;'',
            TAB @ ''for( int32_t b=0; b<2; b++ ) {'',
            TAB @ ''for( int32_t c=0; c<3; c++ ) {'',
            TAB @ ''for( uint32_t i2=0; i2<4; i2++ ) {'',
            TAB @ ''for( uint32_t i3=0; i3<4; i3++ ) {'',
            TAB @ TAB @ ''float tmp_X = ( X[b][c][i2][i3] - mean[c] ) / ( sqrt( var[c] + epsilon));'',
            TAB @ TAB @ ''output[b][c][i2][i3] = tmp_X ;'',
            TAB @ ''}'', TAB @ ''}'', TAB @ ''}'', TAB @ ''}'']"
  using resolve_variance_folding_float [OF scenario_resolve]
    resolve_variance_folding_float [OF scenario2_resolve]
    scenario_resolve scenario2_resolve
  by (simp add: Let_def scenario_facts data_num_elem_def real_externals_sel
        real_externals_put scenario_strings scenario_node_facts print_comment_def
        print_batch_chan_def print_output_def)

lemma double_variance_types:
  "resolve_types store_double_variance scenario_node_bound = Inr ()"
  by (simp add: resolve_types_def resolve_typeConstraint_def deref_def
        typeConstraint_plainFloatingPoints_def scenario_store_def store_double_variance_def
        scenario_node_bound_def)

lemma double_variance_scale:
  "isSplatted_at real_externals store_double_variance (scale scenario_node_bound)
     (float_1_0 real_externals) = Inr True"
  by (simp add: isSplatted_at_def isSplatted_def deref_def data_num_elem_def
        isSplatted_loop.simps scenario_store_def store_double_variance_def
        scenario_node_bound_def real_externals_sel)

lemma double_variance_bias:
  "isSplatted_at real_externals store_double_variance (bias scenario_node_bound)
     (float_0_0 real_externals) = Inr True"
  by (simp add: isSplatted_at_def isSplatted_def deref_def data_num_elem_def
        isSplatted_loop.simps scenario_store_def store_double_variance_def
        scenario_node_bound_def real_externals_sel)

lemma double_variance_calculate:
  "calculateSqrtVarOffline real_externals store_double_variance
     (scenario_node_bound\<lparr>scale := None, bias := None\<rparr>) =
   Inr store_double_variance_folded"
  by (simp add: calculateSqrtVarOffline_def deref_def data_num_elem_def
        calculateSqrtVarOffline_loop.simps scenario_store_def store_double_variance_def
        scenario_node_bound_def store_double_variance_folded_def real_externals_sel)

lemma double_variance_fold:
  "resolve_fold real_externals store_double_variance scenario_node_bound =
     Inr (store_double_variance_folded, scenario_node_folded)"
proof -
  have v: "var scenario_node_bound = Some 4" by (simp add: scenario_node_bound_def)
  have d: "isConst (store_double_variance ! 4)" "4 < length store_double_variance"
    by (simp_all add: scenario_store_def store_double_variance_def)
  show ?thesis
    by (simp add: resolve_fold_def Let_def double_variance_scale double_variance_bias v d
          deref_def double_variance_calculate scenario_node_folded_def)
qed

lemma double_variance_output:
  "resolve_output real_externals store_double_variance_folded scenario_node_folded =
     Inr (store_double_variance_resolved, scenario_node_resolved)"
  by (simp add: resolve_output_def deref_def register_output_def Let_def
        scenario_store_def store_double_variance_def store_double_variance_folded_def
        scenario_node_bound_def scenario_node_folded_def store_double_variance_resolved_def
        scenario_node_resolved_def real_externals_sel)

lemma double_variance_resolve:
  "resolve real_externals store_double_variance scenario_node =
     Inr (store_double_variance_resolved, scenario_node_resolved)"
proof -
  have len: "length (inputs scenario_node) = 5"
    by (simp add: scenario_node_def BatchNormalization_ctor_def)
  show ?thesis
    by (simp add: resolve_def len scenario_bind double_variance_types double_variance_fold
          double_variance_output)
qed

text \<open>
  Claim C1 says that resolution leaves every element of a constant variance at
  \<open>sqrt(original + epsilon)\<close>. The code does so for a variance of single-precision
  floats only. A variance of doubles passes the type validation of line 181, no other
  test is made on it, and \<open>calculateSqrtVarOffline\<close> writes through \<open>float *\<close>: on
  the constant variance of doubles 1.0, 4.0, 9.0, \<open>resolve\<close> succeeds, sets
  \<open>sqrt_var_offline\<close>, rewrites the first three 4-byte slots as floats and leaves the
  other three as they were. The third element is still 9.0, the bytes of the first two
  are overwritten with floats, and none is \<open>sqrt(original + epsilon)\<close> as a double.
\<close>

theorem resolve_double_variance:
  "data_type (store_double_variance ! 4) = TensorProto_DataType_DOUBLE
   \<and> typeConstraint_plainFloatingPoints (store_double_variance ! 4)
   \<and> isConst (store_double_variance ! 4)
   \<and> data_num_elem (store_double_variance ! 4) = 3
   \<and> data_buffer (store_double_variance ! 4) = [0, 15 / 8, 0, 9 / 4, 0, 81 / 32]
   \<and> resolve real_externals store_double_variance scenario_node =
       Inr (store_double_variance_resolved, scenario_node_resolved)
   \<and> sqrt_var_offline scenario_node_resolved
   \<and> data_buffer (store_double_variance_resolved ! 4) =
       [sqrt (0 + 1 / 100000), sqrt (15 / 8 + 1 / 100000), sqrt (0 + 1 / 100000),
        9 / 4, 0, 81 / 32]"
  using double_variance_resolve
  by (simp add: store_double_variance_def store_double_variance_folded_def
        store_double_variance_resolved_def scenario_store_def scenario_node_facts
        typeConstraint_plainFloatingPoints_def data_num_elem_def)

subsection \<open>Identity elision\<close>

lemma isSplatted_loop_all_equal:
  "0 \<le> i \<Longrightarrow> isSplatted_loop ext b n v i = Inr r \<Longrightarrow>
   \<forall>x \<in> set b. \<not> float_ne ext x v \<Longrightarrow> r"
proof (induction ext b n v i rule: isSplatted_loop.induct)
  case (1 ext b n v i)
  show ?case
  proof (cases "i < n")
    case False
    then show ?thesis using "1.prems"(2)
      by (subst (asm) isSplatted_loop.simps) simp
  next
    case True
    have inb: "0 \<le> i \<and> nat i < length b"
    proof (rule ccontr)
      assume "\<not> (0 \<le> i \<and> nat i < length b)"
      then have "isSplatted_loop ext b n v i = Inl OutOfBounds"
        using True by (subst isSplatted_loop.simps) auto
      then show False using "1.prems"(2) by simp
    qed
    then have eq: "\<not> float_ne ext (b ! nat i) v" using "1.prems"(3) by simp
    have step: "isSplatted_loop ext b n v (i + 1) = Inr r"
      using True inb eq "1.prems"(2) by (subst (asm) isSplatted_loop.simps) simp
    show ?thesis
      using "1.IH"[OF True inb eq _ step "1.prems"(3)] "1.prems"(1) by simp
  qed
qed

lemma isSplatted_all_equal:
  assumes "isSplatted ext t v = Inr r" "isConst t" "\<forall>x \<in> set (data_buffer t). \<not> float_ne ext x v"
  shows "r"
proof -
  have "isSplatted_loop ext (data_buffer t) (data_num_elem t) v 0 = Inr r"
    using assms(1,2) by (auto simp: isSplatted_def split: if_splits)
  then show ?thesis using isSplatted_loop_all_equal[of 0 ext "data_buffer t" _ v r] assms(3)
    by simp
qed

lemma resolve_Inr_splat:
  assumes ok: "resolve ext st n = Inr (st', n')"
  shows "\<exists>rs rb. isSplatted ext (st ! (inputs n ! 1)) (float_1_0 ext) = Inr rs
           \<and> isSplatted ext (st ! (inputs n ! 2)) (float_0_0 ext) = Inr rb
           \<and> scale n' = (if rs then None else Some (inputs n ! 1))
           \<and> bias n' = (if rb then None else Some (inputs n ! 2))"
proof -
  from ok obtain st1 m1 where
    f: "resolve_fold ext st (resolve_bind n) = Inr (st1, m1)" and
    out: "resolve_output ext st1 m1 = Inr (st', n')"
    by (rule resolve_Inr)
  note F = resolve_fold_Inr[OF f resolve_bind_fields(2) resolve_bind_fields(3)
             resolve_bind_fields(5)]
  have i1: "input m1 = Some (inputs n ! 0)" using F(6) by (simp add: resolve_bind_fields)
  note O = resolve_output_Inr[OF out i1]
  show ?thesis using F(2) O(5) by auto
qed

text \<open>
  Claim C3. After a successful \<open>resolve\<close>: if the scale operand (\<open>inputs[1]\<close>) is
  constant and no stored element compares unequal to \<open>1.0f\<close>, the node's \<open>scale\<close> is
  \<open>NULL\<close> and, for an input of rank at least 2, the emitted assignment is
  \<open>output... = tmp_X\<close> followed only by the bias term, if any, and \<open>;\<close>: there is no
  \<open>* scale[c]\<close>. Likewise the bias operand (\<open>inputs[2]\<close>), when constant with no
  element unequal to \<open>0.0f\<close>, is nulled and no \<open>+ bias[c]\<close> is emitted.
\<close>

theorem resolve_identity_elision:
  assumes ok: "resolve ext st n = Inr (st', n')"
  shows
    "let S = st ! (inputs n ! 1); B = st ! (inputs n ! 2);
         X = st' ! (inputs n ! 0); dims = data_dim X;
         idxs = ''[b][c]'' @ print_idxs (length dims) 2
     in (isConst S \<and> (\<forall>x \<in> set (data_buffer S). \<not> float_ne ext x (float_1_0 ext)) \<longrightarrow>
           scale n' = None
         \<and> (2 \<le> length dims \<longrightarrow>
               print ext st' n' =
                 Inr (print_comment ext n'
                      @ print_epsilon ext n'
                      @ print_batch_chan (dims ! 0) (dims ! 1)
                      @ print_loops dims 2
                      @ print_tmp_X ext n' (data_type_str ext X) idxs
                      @ [INDT_2 ext @ ''output'' @ idxs @ '' = tmp_X ''
                           @ (if bias n' \<noteq> None then '' + bias[c]'' else []) @ '';'']
                      @ print_close (length dims) 2
                      @ [TAB @ ''}'', TAB @ ''}''])))
      \<and> (isConst B \<and> (\<forall>x \<in> set (data_buffer B). \<not> float_ne ext x (float_0_0 ext)) \<longrightarrow>
           bias n' = None
         \<and> (2 \<le> length dims \<longrightarrow>
               print ext st' n' =
                 Inr (print_comment ext n'
                      @ print_epsilon ext n'
                      @ print_batch_chan (dims ! 0) (dims ! 1)
                      @ print_loops dims 2
                      @ print_tmp_X ext n' (data_type_str ext X) idxs
                      @ [INDT_2 ext @ ''output'' @ idxs @ '' = tmp_X ''
                           @ (if scale n' \<noteq> None then ''* scale[c]'' else []) @ '';'']
                      @ print_close (length dims) 2
                      @ [TAB @ ''}'', TAB @ ''}''])))"
proof -
  note S = resolve_Inr_state[OF ok]
  let ?ix = "inputs n ! 0"
  have "?ix < length st" using S(2) by simp
  then have x': "?ix < length st'" using S(1) by simp
  have inp: "input n' = Some ?ix" using S(6) by simp
  note P = print_eq[OF inp x', of ext]
  from resolve_Inr_splat[OF ok] obtain rs rb where
    rs: "isSplatted ext (st ! (inputs n ! 1)) (float_1_0 ext) = Inr rs" and
    rb: "isSplatted ext (st ! (inputs n ! 2)) (float_0_0 ext) = Inr rb" and
    sc: "scale n' = (if rs then None else Some (inputs n ! 1))" and
    bi: "bias n' = (if rb then None else Some (inputs n ! 2))"
    by blast
  show ?thesis
    unfolding Let_def
  proof (intro conjI impI)
    assume h: "isConst (st ! (inputs n ! 1))
      \<and> (\<forall>x \<in> set (data_buffer (st ! (inputs n ! 1))). \<not> float_ne ext x (float_1_0 ext))"
    then have rs using isSplatted_all_equal[OF rs] by simp
    then show none: "scale n' = None" using sc by simp
    show "print ext st' n' =
                 Inr (print_comment ext n'
                      @ print_epsilon ext n'
                      @ print_batch_chan (data_dim (st' ! ?ix) ! 0) (data_dim (st' ! ?ix) ! 1)
                      @ print_loops (data_dim (st' ! ?ix)) 2
                      @ print_tmp_X ext n' (data_type_str ext (st' ! ?ix))
                          (''[b][c]'' @ print_idxs (length (data_dim (st' ! ?ix))) 2)
                      @ [INDT_2 ext @ ''output''
                           @ (''[b][c]'' @ print_idxs (length (data_dim (st' ! ?ix))) 2)
                           @ '' = tmp_X ''
                           @ (if bias n' \<noteq> None then '' + bias[c]'' else []) @ '';'']
                      @ print_close (length (data_dim (st' ! ?ix))) 2
                      @ [TAB @ ''}'', TAB @ ''}''])"
      if "2 \<le> length (data_dim (st' ! ?ix))"
      using P[OF that] none by (simp add: print_output_def)
  next
    assume h: "isConst (st ! (inputs n ! 2))
      \<and> (\<forall>x \<in> set (data_buffer (st ! (inputs n ! 2))). \<not> float_ne ext x (float_0_0 ext))"
    then have rb using isSplatted_all_equal[OF rb] by simp
    then show none: "bias n' = None" using bi by simp
    show "print ext st' n' =
                 Inr (print_comment ext n'
                      @ print_epsilon ext n'
                      @ print_batch_chan (data_dim (st' ! ?ix) ! 0) (data_dim (st' ! ?ix) ! 1)
                      @ print_loops (data_dim (st' ! ?ix)) 2
                      @ print_tmp_X ext n' (data_type_str ext (st' ! ?ix))
                          (''[b][c]'' @ print_idxs (length (data_dim (st' ! ?ix))) 2)
                      @ [INDT_2 ext @ ''output''
                           @ (''[b][c]'' @ print_idxs (length (data_dim (st' ! ?ix))) 2)
                           @ '' = tmp_X ''
                           @ (if scale n' \<noteq> None then ''* scale[c]'' else []) @ '';'']
                      @ print_close (length (data_dim (st' ! ?ix))) 2
                      @ [TAB @ ''}'', TAB @ ''}''])"
      if "2 \<le> length (data_dim (st' ! ?ix))"
      using P[OF that] none by (simp add: print_output_def)
  qed
qed

text \<open>
  Claim C3, on the scenario of the specification: scale \<open>[1,1,1]\<close> and bias
  \<open>[0,0,0]\<close> are both nulled and the assignment is \<open>output[b][c][i2][i3] = tmp_X ;\<close>.
\<close>

theorem resolve_identity_elision_witness:
  "resolve real_externals scenario_store scenario_node =
     Inr (scenario_store_resolved, scenario_node_resolved)
   \<and> isConst (scenario_store ! 1) \<and> data_buffer (scenario_store ! 1) = [1, 1, 1]
   \<and> isConst (scenario_store ! 2) \<and> data_buffer (scenario_store ! 2) = [0, 0, 0]
   \<and> scale scenario_node_resolved = None
   \<and> bias scenario_node_resolved = None
   \<and> print real_externals scenario_store_resolved scenario_node_resolved =
       Inr [TAB @ ''/* BatchNormalization'',
            TAB @ '' * epsilon = 1e-05'',
            TAB @ '' * momentum = 0.9'',
            TAB @ '' */'',
            [],
            TAB @ ''for( int32_t b=0; b<2; b++ ) {'',
            TAB @ ''for( int32_t c=0; c<3; c++ ) {'',
            TAB @ ''for( uint32_t i2=0; i2<4; i2++ ) {'',
            TAB @ ''for( uint32_t i3=0; i3<4; i3++ ) {'',
            TAB @ TAB @ ''float tmp_X = ( X[b][c][i2][i3] - mean[c] ) / ( var[c] );'',
            TAB @ TAB @ ''output[b][c][i2][i3] = tmp_X ;'',
            TAB @ ''}'', TAB @ ''}'', TAB @ ''}'', TAB @ ''}'']"
  using resolve_identity_elision [OF scenario_resolve] scenario_resolve
  by (simp add: Let_def scenario_facts scenario_operands real_externals_sel
        real_externals_put scenario_strings scenario_node_facts print_comment_def
        print_batch_chan_def print_epsilon_def print_tmp_X_def)

subsection \<open>The output tensor\<close>

text \<open>
  Claim C5. After a successful \<open>resolve\<close> the node's \<open>output\<close> is a tensor at a new
  address (the store grows by this one tensor); its \<open>data_dim\<close> and \<open>data_type\<close> are
  those of the input operand (\<open>inputs[0]\<close>), which resolution leaves as they were; and
  \<open>("output", rv)\<close> is appended to the node's registered outputs, so that it is the
  only one when there was none before, as after construction.
\<close>

theorem resolve_output_tensor:
  assumes ok: "resolve ext st n = Inr (st', n')"
  shows "output n' = Some (length st)
       \<and> length st' = Suc (length st)
       \<and> data_dim (st' ! length st) = data_dim (st ! (inputs n ! 0))
       \<and> data_type (st' ! length st) = data_type (st ! (inputs n ! 0))
       \<and> data_dim (st' ! (inputs n ! 0)) = data_dim (st ! (inputs n ! 0))
       \<and> data_type (st' ! (inputs n ! 0)) = data_type (st ! (inputs n ! 0))
       \<and> output_params n' = output_params n @ [(length st, ''output'')]
       \<and> (output_params n = [] \<longrightarrow> output_params n' = [(length st, ''output'')])"
proof -
  note S = resolve_Inr_state[OF ok]
  have "inputs n ! 0 < length st" using S(2) by simp
  then show ?thesis using S(1) S(3) S(5) S(6) by simp
qed

text \<open>
  Claim C5, on the scenario of the specification: the output is the tensor at address 5,
  of shape \<open>[2,3,4,4]\<close> and type float, the single registered output.
\<close>

theorem resolve_output_tensor_witness:
  "resolve real_externals scenario_store scenario_node =
     Inr (scenario_store_resolved, scenario_node_resolved)
   \<and> length scenario_store = 5
   \<and> output scenario_node_resolved = Some 5
   \<and> length scenario_store_resolved = 6
   \<and> data_dim (scenario_store_resolved ! 5) = [2, 3, 4, 4]
   \<and> data_type (scenario_store_resolved ! 5) = TensorProto_DataType_FLOAT
   \<and> output_params scenario_node_resolved = [(5, ''output'')]"
  using resolve_output_tensor [OF scenario_resolve] scenario_resolve
  by (simp add: scenario_facts scenario_operands)

subsection \<open>The emitted loop nest\<close>

lemma print_loops_map:
  "print_loops dims i =
     map (\<lambda>k. spec_loop ''uint32_t'' (''i'' @ to_string k) (dims ! k)) [i..<length dims]"
proof (induction dims i rule: print_loops.induct)
  case (1 dims i)
  show ?case
  proof (cases "i < length dims")
    case True
    then have "[i..<length dims] = i # [i + 1..<length dims]"
      by (simp add: upt_conv_Cons)
    then show ?thesis
      using True "1.IH"[OF True refl]
      by (subst print_loops.simps) (simp add: spec_loop_def Let_def)
  next
    case False
    then show ?thesis by (subst print_loops.simps) simp
  qed
qed

lemma print_close_replicate:
  "print_close sz i = replicate (sz - i) (TAB @ ''}'')"
proof (induction sz i rule: print_close.induct)
  case (1 sz i)
  show ?case
  proof (cases "i < sz")
    case True
    then have "sz - i = Suc (sz - (i + 1))" by simp
    then show ?thesis
      using True "1.IH"[OF True]
      by (subst print_close.simps) (simp del: replicate.simps add: replicate_Suc)
  next
    case False
    then show ?thesis by (subst print_close.simps) simp
  qed
qed

lemma print_batch_chan_loops:
  assumes "2 \<le> length dims"
  shows "print_batch_chan (dims ! 0) (dims ! 1) @ print_loops dims 2 = spec_loop_nest dims"
proof -
  have "0 < length dims" "Suc 0 < length dims" using assms by linarith+
  then have "[0..<length dims] = 0 # 1 # [2..<length dims]"
    by (simp add: upt_conv_Cons numeral_2_eq_2)
  moreover have "map (\<lambda>i. spec_loop (if i < 2 then ''int32_t'' else ''uint32_t'')
                (if i = 0 then ''b'' else if i = 1 then ''c'' else ''i'' @ to_string i)
                (dims ! i)) [2..<length dims] =
        map (\<lambda>k. spec_loop ''uint32_t'' (''i'' @ to_string k) (dims ! k)) [2..<length dims]"
    by (rule map_cong) auto
  ultimately show ?thesis
    by (simp add: spec_loop_nest_def print_loops_map print_batch_chan_def spec_loop_def)
qed

text \<open>
  Claim C4. For a resolved node whose input has rank \<open>R\<close> at least 2, \<open>print\<close> emits
  the comment block; then the declaration of the local \<open>epsilon\<close>, exactly when
  \<open>sqrt_var_offline\<close> is false; then the \<open>R\<close> loop headers of the specification, over
  batch, channel and each dimension \<open>2..R-1\<close>, every bound being the decimal numeral of
  the corresponding extent of the shape; then the two statements of the body; then
  \<open>R\<close> closing braces. For rank 2 the nest is the batch and channel loops alone.
\<close>

theorem print_loop_nest:
  assumes "input n = Some a" and "a < length st" and "2 \<le> length (data_dim (st ! a))"
  shows
    "let X = st ! a; dims = data_dim X; R = length dims;
         idxs = ''[b][c]'' @ print_idxs R 2
     in print ext st n =
          Inr (print_comment ext n
               @ (if sqrt_var_offline n then []
                  else [INDT_1 ext @ ''float epsilon = '' @ float_put ext (epsilon n) @ '';''])
               @ spec_loop_nest dims
               @ print_tmp_X ext n (data_type_str ext X) idxs
               @ print_output ext n idxs
               @ replicate R (TAB @ ''}''))
        \<and> length (spec_loop_nest dims) = R"
proof -
  let ?dims = "data_dim (st ! a)"
  have cl: "print_close (length ?dims) 2 @ [TAB @ ''}'', TAB @ ''}''] =
              replicate (length ?dims) (TAB @ ''}'')"
  proof -
    have "length ?dims = (length ?dims - 2) + 2" using assms(3) by simp
    then have "replicate (length ?dims) (TAB @ ''}'') =
        replicate (length ?dims - 2) (TAB @ ''}'') @ replicate 2 (TAB @ ''}'')"
      by (metis replicate_add)
    moreover have "replicate 2 (TAB @ ''}'') = [TAB @ ''}'', TAB @ ''}'']"
      by (simp add: numeral_2_eq_2)
    ultimately show ?thesis by (simp add: print_close_replicate)
  qed
  have lp: "print_batch_chan (?dims ! 0) (?dims ! 1) @ print_loops ?dims 2
              = spec_loop_nest ?dims"
    using assms(3) by (rule print_batch_chan_loops)
  have ep: "print_epsilon ext n =
     (if sqrt_var_offline n then []
      else [INDT_1 ext @ ''float epsilon = '' @ float_put ext (epsilon n) @ '';''])"
    by (simp add: print_epsilon_def)
  have "print ext st n =
     Inr (print_comment ext n
          @ print_epsilon ext n
          @ (print_batch_chan (?dims ! 0) (?dims ! 1) @ print_loops ?dims 2)
          @ print_tmp_X ext n (data_type_str ext (st ! a))
              (''[b][c]'' @ print_idxs (length ?dims) 2)
          @ print_output ext n (''[b][c]'' @ print_idxs (length ?dims) 2)
          @ (print_close (length ?dims) 2 @ [TAB @ ''}'', TAB @ ''}'']))"
    using print_eq[OF assms, of ext] by simp
  then show ?thesis
    unfolding Let_def cl lp ep by (simp add: spec_loop_nest_def)
qed

text \<open>
  Claim C4, on the resolved scenario of the specification (shape \<open>[2,3,4,4]\<close>, variance
  folded): four loops with bounds 2, 3, 4 and 4, four closing braces, no epsilon
  declaration.
\<close>

theorem print_loop_nest_witness:
  "input scenario_node_resolved = Some 0
   \<and> 0 < length scenario_store_resolved
   \<and> data_dim (scenario_store_resolved ! 0) = [2, 3, 4, 4]
   \<and> sqrt_var_offline scenario_node_resolved
   \<and> print real_externals scenario_store_resolved scenario_node_resolved =
       Inr [TAB @ ''/* BatchNormalization'',
            TAB @ '' * epsilon = 1e-05'',
            TAB @ '' * momentum = 0.9'',
            TAB @ '' */'',
            [],
            TAB @ ''for( int32_t b=0; b<2; b++ ) {'',
            TAB @ ''for( int32_t c=0; c<3; c++ ) {'',
            TAB @ ''for( uint32_t i2=0; i2<4; i2++ ) {'',
            TAB @ ''for( uint32_t i3=0; i3<4; i3++ ) {'',
            TAB @ TAB @ ''float tmp_X = ( X[b][c][i2][i3] - mean[c] ) / ( var[c] );'',
            TAB @ TAB @ ''output[b][c][i2][i3] = tmp_X ;'',
            TAB @ ''}'', TAB @ ''}'', TAB @ ''}'', TAB @ ''}'']
   \<and> length (spec_loop_nest [2, 3, 4, 4]) = 4"
proof -
  have h: "input scenario_node_resolved = Some 0" "0 < length scenario_store_resolved"
    "2 \<le> length (data_dim (scenario_store_resolved ! 0))"
    by (simp_all add: scenario_facts scenario_node_facts scenario_resolved_length)
  show ?thesis
    using print_loop_nest [OF h, of real_externals] h(1,2)
    by (simp add: Let_def scenario_facts real_externals_sel real_externals_put
          scenario_strings scenario_node_facts print_comment_def print_tmp_X_def
          print_output_def spec_loop_nest_def spec_loop_def to_string.simps)
qed

subsection \<open>The errors of resolve\<close>

lemma isSplatted_loop_Inl:
  "isSplatted_loop ext b n v i = Inl e \<Longrightarrow> e = OutOfBounds"
proof (induction ext b n v i rule: isSplatted_loop.induct)
  case (1 ext b n v i)
  from "1.prems" show ?case
    apply (subst (asm) isSplatted_loop.simps)
    apply (simp split: if_splits)
    using "1.IH" apply blast
    done
qed

lemma calculateSqrtVarOffline_loop_Inl:
  "calculateSqrtVarOffline_loop ext eps n v i = Inl e \<Longrightarrow> e = OutOfBounds"
proof (induction ext eps n v i rule: calculateSqrtVarOffline_loop.induct)
  case (1 ext eps n v i)
  from "1.prems" show ?case
    apply (subst (asm) calculateSqrtVarOffline_loop.simps)
    apply (simp split: if_splits)
    using "1.IH" apply blast
    done
qed

lemma isSplatted_at_Inl:
  assumes "isSplatted_at ext st p v = Inl e"
  shows "e = ERROR ''Unimplemented'' \<or> e = InvalidPointer \<or> e = OutOfBounds"
proof (cases p)
  case None
  then show ?thesis using assms by (simp add: isSplatted_at_def)
next
  case (Some a)
  show ?thesis
  proof (cases "a < length st")
    case False
    then show ?thesis using assms Some by (simp add: isSplatted_at_def deref_def)
  next
    case True
    then have "isSplatted ext (st ! a) v = Inl e"
      using assms Some by (simp add: isSplatted_at_def deref_def)
    then show ?thesis
      using isSplatted_loop_Inl[of ext "data_buffer (st ! a)" "data_num_elem (st ! a)" v 0 e]
      by (auto simp: isSplatted_def split: if_splits)
  qed
qed

lemma calculateSqrtVarOffline_Inl:
  assumes "calculateSqrtVarOffline ext st n = Inl e"
  shows "e = InvalidPointer \<or> e = OutOfBounds"
proof (cases "var n")
  case None
  then show ?thesis using assms by (simp add: calculateSqrtVarOffline_def)
next
  case (Some a)
  show ?thesis
  proof (cases "a < length st")
    case False
    then show ?thesis using assms Some by (simp add: calculateSqrtVarOffline_def deref_def)
  next
    case True
    show ?thesis
    proof (cases "calculateSqrtVarOffline_loop ext (epsilon n) (data_num_elem (st ! a))
                    (data_buffer (st ! a)) 0")
      case (Inl e')
      then have "e = e'" using assms Some True
        by (simp add: calculateSqrtVarOffline_def deref_def)
      then show ?thesis using calculateSqrtVarOffline_loop_Inl[OF Inl] by simp
    next
      case (Inr v)
      then show ?thesis using assms Some True
        by (simp add: calculateSqrtVarOffline_def deref_def)
    qed
  qed
qed

lemma resolve_fold_Inl:
  assumes "resolve_fold ext st n = Inl e"
  shows "e = ERROR ''Unimplemented'' \<or> e = InvalidPointer \<or> e = OutOfBounds"
proof (cases "isSplatted_at ext st (scale n) (float_1_0 ext)")
  case (Inl e1)
  then have "e = e1" using assms by (simp add: resolve_fold_def)
  then show ?thesis using isSplatted_at_Inl[OF Inl] by simp
next
  case rs: (Inr rs)
  define n1 where "n1 = (if rs then n\<lparr>scale := None\<rparr> else n)"
  show ?thesis
  proof (cases "isSplatted_at ext st (bias n1) (float_0_0 ext)")
    case (Inl e2)
    then have "e = e2" using assms rs by (simp add: resolve_fold_def n1_def Let_def)
    then show ?thesis using isSplatted_at_Inl[OF Inl] by simp
  next
    case rb: (Inr rb)
    define n2 where "n2 = (if rb then n1\<lparr>bias := None\<rparr> else n1)"
    have rest: "(case var n2 of None \<Rightarrow> Inl InvalidPointer | Some a \<Rightarrow>
        case deref st a of Inl e \<Rightarrow> Inl e | Inr t \<Rightarrow>
          if isConst t then
            (case calculateSqrtVarOffline ext st n2 of
               Inl e \<Rightarrow> Inl e
             | Inr st' \<Rightarrow> Inr (st', n2\<lparr>sqrt_var_offline := True\<rparr>))
          else Inr (st, n2)) = Inl e"
      using assms rs rb unfolding resolve_fold_def Let_def n1_def n2_def
      by (simp cong: sum.case_cong if_cong option.case_cong)
    show ?thesis
    proof (cases "var n2")
      case None
      then show ?thesis using rest by simp
    next
      case (Some a)
      show ?thesis
      proof (cases "a < length st")
        case False
        then show ?thesis using rest Some by (simp add: deref_def)
      next
        case True
        show ?thesis
        proof (cases "isConst (st ! a)")
          case False
          then show ?thesis using rest Some True by (simp add: deref_def)
        next
          case c: True
          show ?thesis
          proof (cases "calculateSqrtVarOffline ext st n2")
            case (Inl e3)
            then have "e = e3" using rest Some True c by (simp add: deref_def)
            then show ?thesis using calculateSqrtVarOffline_Inl[OF Inl] by auto
          next
            case (Inr st2)
            then show ?thesis using rest Some True c by (simp add: deref_def)
          qed
        qed
      qed
    qed
  qed
qed

lemma resolve_output_Inl:
  "resolve_output ext st n = Inl e \<Longrightarrow> e = InvalidPointer"
  by (cases "input n"; cases "deref st (the (input n))")
     (auto simp: resolve_output_def deref_def Let_def split: if_splits)

lemma resolve_types_eq:
  assumes "\<forall>k<5. inputs n ! k < length st"
  shows "resolve_types st n =
     (if \<forall>k<5. typeConstraint_plainFloatingPoints (st ! (inputs n ! k))
      then Inr () else Inl (ERROR ''Incorrect input for node''))"
proof -
  have tc: "\<And>k. k < 5 \<Longrightarrow> resolve_typeConstraint st (inputs n ! k) =
     (if typeConstraint_plainFloatingPoints (st ! (inputs n ! k))
      then Inr () else Inl (ERROR ''Incorrect input for node''))"
    using assms by (simp add: resolve_typeConstraint_def deref_def)
  have "resolve_typeConstraint st (inputs n ! 0) =
     (if typeConstraint_plainFloatingPoints (st ! (inputs n ! 0))
      then Inr () else Inl (ERROR ''Incorrect input for node''))"
   "resolve_typeConstraint st (inputs n ! 1) =
     (if typeConstraint_plainFloatingPoints (st ! (inputs n ! 1))
      then Inr () else Inl (ERROR ''Incorrect input for node''))"
   "resolve_typeConstraint st (inputs n ! 2) =
     (if typeConstraint_plainFloatingPoints (st ! (inputs n ! 2))
      then Inr () else Inl (ERROR ''Incorrect input for node''))"
   "resolve_typeConstraint st (inputs n ! 3) =
     (if typeConstraint_plainFloatingPoints (st ! (inputs n ! 3))
      then Inr () else Inl (ERROR ''Incorrect input for node''))"
   "resolve_typeConstraint st (inputs n ! 4) =
     (if typeConstraint_plainFloatingPoints (st ! (inputs n ! 4))
      then Inr () else Inl (ERROR ''Incorrect input for node''))"
    by (rule tc, simp)+
  then show ?thesis
    unfolding resolve_types_def all_less_5 by simp
qed

lemma resolve_Inl:
  assumes "length (inputs n) = 5" and "resolve ext st n = Inl e"
  shows "resolve_types st (resolve_bind n) = Inl e
       \<or> e = ERROR ''Unimplemented'' \<or> e = InvalidPointer \<or> e = OutOfBounds"
proof (cases "resolve_types st (resolve_bind n)")
  case (Inl e1)
  then show ?thesis using assms by (simp add: resolve_def)
next
  case t: (Inr u)
  show ?thesis
  proof (cases "resolve_fold ext st (resolve_bind n)")
    case (Inl e2)
    then have "e = e2" using assms t by (simp add: resolve_def)
    then show ?thesis using resolve_fold_Inl[OF Inl] by auto
  next
    case (Inr p)
    obtain st1 m1 where p: "p = (st1, m1)" by (cases p)
    have "resolve_output ext st1 m1 = Inl e"
      using assms t Inr p by (simp add: resolve_def)
    then show ?thesis using resolve_output_Inl by blast
  qed
qed

lemma resolve_types_Inl:
  "resolve_types st n = Inl e \<Longrightarrow>
   e = ERROR ''Incorrect input for node'' \<or> e = InvalidPointer"
  unfolding resolve_types_def resolve_typeConstraint_def deref_def
  by (simp split: sum.splits if_splits)

text \<open>
  Claim C6. \<open>resolve\<close> ends in \<open>ERROR("wrong number of inputs to BatchNormalization")\<close>,
  the arity error, exactly when the operand list does not have five elements: with any
  other count it fails so, and with five operands whatever it returns is not this error.
\<close>

theorem resolve_arity:
  "(resolve ext st n = Inl (ERROR ''wrong number of inputs to BatchNormalization''))
     = (length (inputs n) \<noteq> 5)"
proof
  assume r: "resolve ext st n = Inl (ERROR ''wrong number of inputs to BatchNormalization'')"
  show "length (inputs n) \<noteq> 5"
  proof
    assume l: "length (inputs n) = 5"
    from resolve_Inl[OF l r] resolve_types_Inl show False by fastforce
  qed
next
  assume "length (inputs n) \<noteq> 5"
  then show "resolve ext st n = Inl (ERROR ''wrong number of inputs to BatchNormalization'')"
    by (simp add: resolve_def)
qed

text \<open>
  Claim C6, instances: 0, 1, 4 and 6 operands give the arity error; the five operands of
  the scenario do not.
\<close>

theorem resolve_arity_witness:
  "resolve real_externals scenario_store (BatchNormalization_ctor real_externals []) =
     Inl (ERROR ''wrong number of inputs to BatchNormalization'')
   \<and> resolve real_externals scenario_store (BatchNormalization_ctor real_externals [0]) =
     Inl (ERROR ''wrong number of inputs to BatchNormalization'')
   \<and> resolve real_externals scenario_store
       (BatchNormalization_ctor real_externals [0, 1, 2, 3]) =
     Inl (ERROR ''wrong number of inputs to BatchNormalization'')
   \<and> resolve real_externals scenario_store
       (BatchNormalization_ctor real_externals [0, 1, 2, 3, 4, 4]) =
     Inl (ERROR ''wrong number of inputs to BatchNormalization'')
   \<and> resolve real_externals scenario_store
       (BatchNormalization_ctor real_externals [0, 1, 2, 3, 4]) \<noteq>
     Inl (ERROR ''wrong number of inputs to BatchNormalization'')"
  using
    resolve_arity [of real_externals scenario_store "BatchNormalization_ctor real_externals []"]
    resolve_arity [of real_externals scenario_store "BatchNormalization_ctor real_externals [0]"]
    resolve_arity [of real_externals scenario_store
      "BatchNormalization_ctor real_externals [0, 1, 2, 3]"]
    resolve_arity [of real_externals scenario_store
      "BatchNormalization_ctor real_externals [0, 1, 2, 3, 4, 4]"]
    resolve_arity [of real_externals scenario_store
      "BatchNormalization_ctor real_externals [0, 1, 2, 3, 4]"]
  by (simp add: BatchNormalization_ctor_def)

lemma isSplatted_total:
  assumes "data_type t = TensorProto_DataType_FLOAT"
    and "isConst t \<longrightarrow> nat (data_num_elem t) \<le> length (data_buffer t)"
  shows "\<exists>r. isSplatted ext t v = Inr r"
proof (cases "isConst t")
  case False
  then have "isSplatted ext t v = Inr False" using assms(1) by (simp add: isSplatted_def)
  then show ?thesis by blast
next
  case True
  then have "\<exists>r. isSplatted_loop ext (data_buffer t) (data_num_elem t) v 0 = Inr r"
    using assms(2) by (intro isSplatted_loop_total) simp_all
  then show ?thesis using assms(1) True by (simp add: isSplatted_def)
qed

lemma resolve_fold_total:
  assumes m: "scale m = Some s" "bias m = Some b" "var m = Some a"
    and valid: "s < length st" "b < length st" "a < length st"
    and fl: "data_type (st ! s) = TensorProto_DataType_FLOAT"
            "data_type (st ! b) = TensorProto_DataType_FLOAT"
    and wf: "isConst (st ! s) \<longrightarrow> nat (data_num_elem (st ! s)) \<le> length (data_buffer (st ! s))"
            "isConst (st ! b) \<longrightarrow> nat (data_num_elem (st ! b)) \<le> length (data_buffer (st ! b))"
            "isConst (st ! a) \<longrightarrow> nat (data_num_elem (st ! a)) \<le> length (data_buffer (st ! a))"
  shows "\<exists>st1 m1. resolve_fold ext st m = Inr (st1, m1)"
proof -
  obtain rs where "isSplatted ext (st ! s) (float_1_0 ext) = Inr rs"
    using isSplatted_total[OF fl(1) wf(1)] by blast
  then have rs: "isSplatted_at ext st (scale m) (float_1_0 ext) = Inr rs"
    using m(1) valid(1) by (simp add: isSplatted_at_def deref_def)
  define n1 where "n1 = (if rs then m\<lparr>scale := None\<rparr> else m)"
  have n1: "bias n1 = Some b" "var n1 = Some a" by (simp_all add: n1_def m)
  obtain rb where "isSplatted ext (st ! b) (float_0_0 ext) = Inr rb"
    using isSplatted_total[OF fl(2) wf(2)] by blast
  then have rb: "isSplatted_at ext st (bias n1) (float_0_0 ext) = Inr rb"
    using n1(1) valid(2) by (simp add: isSplatted_at_def deref_def)
  define n2 where "n2 = (if rb then n1\<lparr>bias := None\<rparr> else n1)"
  have n2: "var n2 = Some a" by (simp add: n2_def n1)
  have eq: "resolve_fold ext st m =
      (case var n2 of None \<Rightarrow> Inl InvalidPointer | Some a \<Rightarrow>
        case deref st a of Inl e \<Rightarrow> Inl e | Inr t \<Rightarrow>
          if isConst t then
            (case calculateSqrtVarOffline ext st n2 of
               Inl e \<Rightarrow> Inl e
             | Inr st' \<Rightarrow> Inr (st', n2\<lparr>sqrt_var_offline := True\<rparr>))
          else Inr (st, n2))"
    using rs rb unfolding resolve_fold_def Let_def n1_def n2_def
    by (simp cong: sum.case_cong if_cong option.case_cong)
  show ?thesis
  proof (cases "isConst (st ! a)")
    case False
    then show ?thesis using eq n2 valid(3) by (simp add: deref_def)
  next
    case True
    then obtain v where
      "calculateSqrtVarOffline_loop ext (epsilon n2) (data_num_elem (st ! a))
         (data_buffer (st ! a)) 0 = Inr v"
      using calculateSqrtVarOffline_loop_total[of 0 "data_num_elem (st ! a)"
              "data_buffer (st ! a)" ext "epsilon n2"] wf(3)
      by auto
    then have "calculateSqrtVarOffline ext st n2 = Inr (st[a := (st ! a)\<lparr>data_buffer := v\<rparr>])"
      using n2 valid(3) by (simp add: calculateSqrtVarOffline_def deref_def)
    then show ?thesis using eq n2 valid(3) True by (simp add: deref_def)
  qed
qed

lemma resolve_succeeds:
  assumes len: "length (inputs n) = 5"
    and valid: "\<forall>k<5. inputs n ! k < length st"
    and tc: "\<forall>k<5. typeConstraint_plainFloatingPoints (st ! (inputs n ! k))"
    and fl: "data_type (st ! (inputs n ! 1)) = TensorProto_DataType_FLOAT"
            "data_type (st ! (inputs n ! 2)) = TensorProto_DataType_FLOAT"
    and wf: "isConst (st ! (inputs n ! 1)) \<longrightarrow>
               nat (data_num_elem (st ! (inputs n ! 1)))
                 \<le> length (data_buffer (st ! (inputs n ! 1)))"
            "isConst (st ! (inputs n ! 2)) \<longrightarrow>
               nat (data_num_elem (st ! (inputs n ! 2)))
                 \<le> length (data_buffer (st ! (inputs n ! 2)))"
            "isConst (st ! (inputs n ! 4)) \<longrightarrow>
               nat (data_num_elem (st ! (inputs n ! 4)))
                 \<le> length (data_buffer (st ! (inputs n ! 4)))"
  shows "\<exists>st' n'. resolve ext st n = Inr (st', n')"
proof -
  have v: "inputs n ! 0 < length st" "inputs n ! 1 < length st" "inputs n ! 2 < length st"
    "inputs n ! 4 < length st"
    using valid by simp_all
  have valid': "\<forall>k<5. inputs (resolve_bind n) ! k < length st"
    using valid by (simp add: resolve_bind_fields)
  have t: "resolve_types st (resolve_bind n) = Inr ()"
    using resolve_types_eq[OF valid'] tc by (simp add: resolve_bind_fields)
  obtain st1 m1 where f: "resolve_fold ext st (resolve_bind n) = Inr (st1, m1)"
    using resolve_fold_total[OF resolve_bind_fields(2) resolve_bind_fields(3)
            resolve_bind_fields(5) v(2) v(3) v(4) fl wf]
    by blast
  note F = resolve_fold_Inr[OF f resolve_bind_fields(2) resolve_bind_fields(3)
             resolve_bind_fields(5)]
  have i1: "input m1 = Some (inputs n ! 0)" using F(6) by (simp add: resolve_bind_fields)
  have l1: "length st1 = length st"
  proof (cases "isConst (st ! (inputs n ! 4))")
    case True
    then show ?thesis using F(4) by auto
  next
    case False
    then show ?thesis using F(5) by simp
  qed
  have "\<exists>st' n'. resolve_output ext st1 m1 = Inr (st', n')"
    using i1 l1 v(1) by (simp add: resolve_output_def deref_def Let_def)
  then show ?thesis using len t f by (simp add: resolve_def)
qed

text \<open>
  Claim C7. With five operands at valid addresses, \<open>resolve\<close> ends in
  \<open>ERROR("Incorrect input for node")\<close>, the type error, exactly when one of input,
  scale, bias, mean and variance has an element type that is not plain floating point;
  and no integer, boolean or string element type is plain floating point.
\<close>

theorem resolve_type_constraint:
  assumes len: "length (inputs n) = 5"
    and valid: "\<forall>k<5. inputs n ! k < length st"
  shows "((resolve ext st n = Inl (ERROR ''Incorrect input for node''))
            = (\<exists>k<5. \<not> typeConstraint_plainFloatingPoints (st ! (inputs n ! k))))
       \<and> (data_type t \<in> {TensorProto_DataType_UINT8, TensorProto_DataType_INT8,
              TensorProto_DataType_UINT16, TensorProto_DataType_INT16,
              TensorProto_DataType_INT32, TensorProto_DataType_INT64,
              TensorProto_DataType_UINT32, TensorProto_DataType_UINT64,
              TensorProto_DataType_BOOL, TensorProto_DataType_STRING}
            \<longrightarrow> \<not> typeConstraint_plainFloatingPoints t)"
proof (intro conjI)
  have valid': "\<forall>k<5. inputs (resolve_bind n) ! k < length st"
    using valid by (simp add: resolve_bind_fields)
  note T = resolve_types_eq[OF valid', unfolded resolve_bind_fields]
  show "(resolve ext st n = Inl (ERROR ''Incorrect input for node''))
            = (\<exists>k<5. \<not> typeConstraint_plainFloatingPoints (st ! (inputs n ! k)))"
  proof
    assume r: "resolve ext st n = Inl (ERROR ''Incorrect input for node'')"
    from resolve_Inl[OF len r]
    have "resolve_types st (resolve_bind n) = Inl (ERROR ''Incorrect input for node'')"
      by simp
    then show "\<exists>k<5. \<not> typeConstraint_plainFloatingPoints (st ! (inputs n ! k))"
      using T by (auto split: if_splits)
  next
    assume "\<exists>k<5. \<not> typeConstraint_plainFloatingPoints (st ! (inputs n ! k))"
    then have "resolve_types st (resolve_bind n) = Inl (ERROR ''Incorrect input for node'')"
      using T by auto
    then show "resolve ext st n = Inl (ERROR ''Incorrect input for node'')"
      using len by (simp add: resolve_def)
  qed
  show "data_type t \<in> {TensorProto_DataType_UINT8, TensorProto_DataType_INT8,
              TensorProto_DataType_UINT16, TensorProto_DataType_INT16,
              TensorProto_DataType_INT32, TensorProto_DataType_INT64,
              TensorProto_DataType_UINT32, TensorProto_DataType_UINT64,
              TensorProto_DataType_BOOL, TensorProto_DataType_STRING}
            \<longrightarrow> \<not> typeConstraint_plainFloatingPoints t"
    by (auto simp: typeConstraint_plainFloatingPoints_def)
qed

text \<open>
  Claim C7, instances: a mean of 32-bit integers is rejected with the type error; the
  operands of the scenario, all float, are not.
\<close>

theorem resolve_type_constraint_witness:
  "length (inputs scenario_node) = 5
   \<and> length store_int32_mean = 5
   \<and> data_type (store_int32_mean ! 3) = TensorProto_DataType_INT32
   \<and> \<not> typeConstraint_plainFloatingPoints (store_int32_mean ! 3)
   \<and> resolve real_externals store_int32_mean scenario_node =
       Inl (ERROR ''Incorrect input for node'')
   \<and> resolve real_externals scenario_store scenario_node \<noteq>
       Inl (ERROR ''Incorrect input for node'')"
proof -
  have l: "length store_int32_mean = 5" "length scenario_store = 5"
    by (simp_all add: store_int32_mean_def scenario_store_def)
  have v1: "\<forall>k<5. inputs scenario_node ! k < length store_int32_mean"
    and v2: "\<forall>k<5. inputs scenario_node ! k < length scenario_store"
    unfolding all_less_5 by (simp_all add: scenario_inputs(2) l)
  have d: "data_type (store_int32_mean ! 3) = TensorProto_DataType_INT32"
    by (simp add: store_int32_mean_def scenario_store_def)
  have bad: "\<exists>k<5. \<not> typeConstraint_plainFloatingPoints
               (store_int32_mean ! (inputs scenario_node ! k))"
    by (rule exI[of _ 3]) (simp add: scenario_inputs(2) d typeConstraint_plainFloatingPoints_def)
  have good: "\<not> (\<exists>k<5. \<not> typeConstraint_plainFloatingPoints
               (scenario_store ! (inputs scenario_node ! k)))"
    unfolding not_ex not_not de_Morgan_conj imp_conv_disj[symmetric] all_less_5
    by (simp add: scenario_inputs(2) scenario_store_def typeConstraint_plainFloatingPoints_def)
  show ?thesis
    using resolve_type_constraint [OF scenario_inputs(1) v1,
        where ext = real_externals and t = "store_int32_mean ! 3"]
      resolve_type_constraint [OF scenario_inputs(1) v2,
        where ext = real_externals and t = "store_int32_mean ! 3"]
      bad good l d scenario_inputs(1)
    by simp
qed

text \<open>
  Claim C9. With five operands at valid addresses that all pass the plain-floating-point
  validation, if the scale or the bias has an element type other than single-precision
  float then \<open>resolve\<close> ends in \<open>ERROR("Unimplemented")\<close>, whether that tensor is
  constant or not: \<open>isSplatted\<close> is called on both and tests the element type first.
  (When it is the bias, the check of a constant scale must first read the scale's
  \<open>data_num_elem()\<close> elements, which its buffer is assumed to hold.)
\<close>

theorem resolve_non_float_scale_bias:
  assumes len: "length (inputs n) = 5"
    and valid: "\<forall>k<5. inputs n ! k < length st"
    and tc: "\<forall>k<5. typeConstraint_plainFloatingPoints (st ! (inputs n ! k))"
    and nf: "data_type (st ! (inputs n ! 1)) \<noteq> TensorProto_DataType_FLOAT
             \<or> data_type (st ! (inputs n ! 2)) \<noteq> TensorProto_DataType_FLOAT"
    and wf: "isConst (st ! (inputs n ! 1)) \<longrightarrow>
               nat (data_num_elem (st ! (inputs n ! 1)))
                 \<le> length (data_buffer (st ! (inputs n ! 1)))"
  shows "resolve ext st n = Inl (ERROR ''Unimplemented'')"
proof -
  let ?m = "resolve_bind n"
  have v: "inputs n ! 1 < length st" "inputs n ! 2 < length st" using valid by simp_all
  have valid': "\<forall>k<5. inputs ?m ! k < length st"
    using valid by (simp add: resolve_bind_fields)
  have t: "resolve_types st ?m = Inr ()"
    using resolve_types_eq[OF valid'] tc by (simp add: resolve_bind_fields)
  have f: "resolve_fold ext st ?m = Inl (ERROR ''Unimplemented'')"
  proof (cases "data_type (st ! (inputs n ! 1)) = TensorProto_DataType_FLOAT")
    case False
    then have "isSplatted_at ext st (scale ?m) (float_1_0 ext) = Inl (ERROR ''Unimplemented'')"
      using v(1) by (simp add: isSplatted_at_def deref_def isSplatted_def resolve_bind_fields)
    then show ?thesis by (simp add: resolve_fold_def)
  next
    case True
    then obtain rs where "isSplatted ext (st ! (inputs n ! 1)) (float_1_0 ext) = Inr rs"
      using isSplatted_total[OF True wf] by blast
    then have rs: "isSplatted_at ext st (scale ?m) (float_1_0 ext) = Inr rs"
      using v(1) by (simp add: isSplatted_at_def deref_def resolve_bind_fields)
    define n1 where "n1 = (if rs then ?m\<lparr>scale := None\<rparr> else ?m)"
    have "bias n1 = Some (inputs n ! 2)" by (simp add: n1_def resolve_bind_fields)
    moreover have "data_type (st ! (inputs n ! 2)) \<noteq> TensorProto_DataType_FLOAT"
      using nf True by simp
    ultimately have
      "isSplatted_at ext st (bias n1) (float_0_0 ext) = Inl (ERROR ''Unimplemented'')"
      using v(2) by (simp add: isSplatted_at_def deref_def isSplatted_def)
    then show ?thesis using rs by (simp add: resolve_fold_def Let_def n1_def)
  qed
  show ?thesis using len t f by (simp add: resolve_def)
qed

text \<open>
  Claim C9, instance: a scale of doubles that is not constant passes the type validation
  and \<open>resolve\<close> ends in \<open>ERROR("Unimplemented")\<close>.
\<close>

theorem resolve_non_float_scale_bias_witness:
  "length (inputs scenario_node) = 5
   \<and> length store_double_scale = 5
   \<and> data_type (store_double_scale ! 1) = TensorProto_DataType_DOUBLE
   \<and> typeConstraint_plainFloatingPoints (store_double_scale ! 1)
   \<and> \<not> isConst (store_double_scale ! 1)
   \<and> resolve real_externals store_double_scale scenario_node = Inl (ERROR ''Unimplemented'')"
proof -
  have l: "length store_double_scale = 5"
    by (simp add: store_double_scale_def scenario_store_def)
  have v: "\<forall>k<5. inputs scenario_node ! k < length store_double_scale"
    unfolding all_less_5 by (simp add: scenario_inputs(2) l)
  have tc: "\<forall>k<5. typeConstraint_plainFloatingPoints
              (store_double_scale ! (inputs scenario_node ! k))"
    unfolding all_less_5
    by (simp add: scenario_inputs(2) store_double_scale_def scenario_store_def
          typeConstraint_plainFloatingPoints_def)
  have d: "store_double_scale ! Suc 0 =
      \<lparr> data_dim = [3], data_type = TensorProto_DataType_DOUBLE, isConst = False,
        data_buffer = [] \<rparr>"
    by (simp add: store_double_scale_def scenario_store_def)
  have nf: "data_type (store_double_scale ! (inputs scenario_node ! 1))
              \<noteq> TensorProto_DataType_FLOAT
            \<or> data_type (store_double_scale ! (inputs scenario_node ! 2))
              \<noteq> TensorProto_DataType_FLOAT"
    by (simp add: scenario_inputs(2) store_double_scale_def scenario_store_def)
  have wf: "isConst (store_double_scale ! (inputs scenario_node ! 1)) \<longrightarrow>
               nat (data_num_elem (store_double_scale ! (inputs scenario_node ! 1)))
                 \<le> length (data_buffer (store_double_scale ! (inputs scenario_node ! 1)))"
    by (simp add: scenario_inputs(2) store_double_scale_def scenario_store_def)
  show ?thesis
    using resolve_non_float_scale_bias [OF scenario_inputs(1) v tc nf wf, of real_externals]
      l scenario_inputs(1)
    by (simp add: d typeConstraint_plainFloatingPoints_def)
qed

text \<open>
  Claim C10. No condition of \<open>resolve\<close> is on the rank of the input: with five operands
  at valid addresses, of plain floating-point types, scale and bias single-precision and
  the buffers of constant scale, bias and variance holding their elements, \<open>resolve\<close>
  succeeds also when the input has fewer than two dimensions; \<open>print\<close> on the resolved
  node then reads \<open>data_dim[0]\<close> or \<open>data_dim[1]\<close> past the end of the shape.
\<close>

theorem resolve_accepts_low_rank:
  assumes len: "length (inputs n) = 5"
    and valid: "\<forall>k<5. inputs n ! k < length st"
    and tc: "\<forall>k<5. typeConstraint_plainFloatingPoints (st ! (inputs n ! k))"
    and fl: "data_type (st ! (inputs n ! 1)) = TensorProto_DataType_FLOAT"
            "data_type (st ! (inputs n ! 2)) = TensorProto_DataType_FLOAT"
    and wf: "isConst (st ! (inputs n ! 1)) \<longrightarrow>
               nat (data_num_elem (st ! (inputs n ! 1)))
                 \<le> length (data_buffer (st ! (inputs n ! 1)))"
            "isConst (st ! (inputs n ! 2)) \<longrightarrow>
               nat (data_num_elem (st ! (inputs n ! 2)))
                 \<le> length (data_buffer (st ! (inputs n ! 2)))"
            "isConst (st ! (inputs n ! 4)) \<longrightarrow>
               nat (data_num_elem (st ! (inputs n ! 4)))
                 \<le> length (data_buffer (st ! (inputs n ! 4)))"
    and rank: "length (data_dim (st ! (inputs n ! 0))) < 2"
  shows "\<exists>st' n'. resolve ext st n = Inr (st', n') \<and> print ext st' n' = Inl OutOfBounds"
proof -
  obtain st' n' where ok: "resolve ext st n = Inr (st', n')"
    using resolve_succeeds[OF len valid tc fl wf] by blast
  note S = resolve_Inr_state[OF ok]
  let ?ix = "inputs n ! 0"
  have x: "?ix < length st" using valid by simp
  then have x': "?ix < length st'" using S(1) by simp
  have inp: "input n' = Some ?ix" using S(6) by simp
  have dims: "data_dim (st' ! ?ix) = data_dim (st ! ?ix)" using S(3) x by simp
  have "print ext st' n' = Inl OutOfBounds"
  proof (cases "data_dim (st ! ?ix)")
    case Nil
    then show ?thesis using inp x' dims by (simp add: print_def deref_def vector_at_def)
  next
    case (Cons d ds)
    then have "ds = []" using rank by simp
    then show ?thesis using Cons inp x' dims
      by (simp add: print_def deref_def vector_at_def)
  qed
  then show ?thesis using ok by blast
qed

text \<open>
  Claim C10, instance: the scenario with an input of shape \<open>[3]\<close> resolves, and
  \<open>print\<close> reads past the end of the shape.
\<close>

theorem resolve_accepts_low_rank_witness:
  "length (inputs scenario_node) = 5
   \<and> length store_rank1_input = 5
   \<and> data_dim (store_rank1_input ! 0) = [3]
   \<and> (\<exists>st' n'. resolve real_externals store_rank1_input scenario_node = Inr (st', n')
                \<and> print real_externals st' n' = Inl OutOfBounds)"
proof -
  have l: "length store_rank1_input = 5"
    by (simp add: store_rank1_input_def scenario_store_def)
  have v: "\<forall>k<5. inputs scenario_node ! k < length store_rank1_input"
    unfolding all_less_5 by (simp add: scenario_inputs(2) l)
  have tc: "\<forall>k<5. typeConstraint_plainFloatingPoints
              (store_rank1_input ! (inputs scenario_node ! k))"
    unfolding all_less_5
    by (simp add: scenario_inputs(2) store_rank1_input_def scenario_store_def
          typeConstraint_plainFloatingPoints_def)
  have fl: "data_type (store_rank1_input ! (inputs scenario_node ! 1))
              = TensorProto_DataType_FLOAT"
           "data_type (store_rank1_input ! (inputs scenario_node ! 2))
              = TensorProto_DataType_FLOAT"
    by (simp_all add: scenario_inputs(2) store_rank1_input_def scenario_store_def)
  have wf: "isConst (store_rank1_input ! (inputs scenario_node ! 1)) \<longrightarrow>
               nat (data_num_elem (store_rank1_input ! (inputs scenario_node ! 1)))
                 \<le> length (data_buffer (store_rank1_input ! (inputs scenario_node ! 1)))"
           "isConst (store_rank1_input ! (inputs scenario_node ! 2)) \<longrightarrow>
               nat (data_num_elem (store_rank1_input ! (inputs scenario_node ! 2)))
                 \<le> length (data_buffer (store_rank1_input ! (inputs scenario_node ! 2)))"
           "isConst (store_rank1_input ! (inputs scenario_node ! 4)) \<longrightarrow>
               nat (data_num_elem (store_rank1_input ! (inputs scenario_node ! 4)))
                 \<le> length (data_buffer (store_rank1_input ! (inputs scenario_node ! 4)))"
    by (simp_all add: scenario_inputs(2) store_rank1_input_def scenario_store_def
          data_num_elem_def)
  have d: "data_dim (store_rank1_input ! 0) = [3]"
    by (simp add: store_rank1_input_def scenario_store_def)
  have rank: "length (data_dim (store_rank1_input ! (inputs scenario_node ! 0))) < 2"
    by (simp add: scenario_inputs(2) d)
  show ?thesis
    using resolve_accepts_low_rank [OF scenario_inputs(1) v tc fl wf rank, of real_externals]
      l d scenario_inputs(1)
    by simp
qed

subsection \<open>parseAttributes\<close>

lemma parseAttributes_append:
  "parseAttributes ext (xs @ ys) n =
     (case parseAttributes ext xs n of
        Inl e \<Rightarrow> Inl e
      | Inr n1 \<Rightarrow> parseAttributes ext ys n1)"
proof (induction xs arbitrary: n)
  case Nil
  show ?case by simp
next
  case (Cons x xs)
  show ?case
  proof (cases "parseAttributes_body ext x n")
    case (Inl e)
    then show ?thesis by simp
  next
    case (Inr n2)
    then show ?thesis using Cons.IH[of n2] by simp
  qed
qed

lemma parseAttributes_body_Inr:
  "(\<exists>n'. parseAttributes_body ext a n = Inr n') =
     ((attr_name a = ''epsilon'' \<or> attr_name a = ''momentum'')
        \<and> attr_type a = AttributeProto_AttributeType_FLOAT \<and> attr_has_f a
      \<or> attr_name a = ''spatial''
          \<and> (\<exists>v. parse_attribute_int ext a = Inr v \<and> int32_of v = 1))"
proof (cases "attr_name a = ''epsilon''")
  case True
  then show ?thesis
    by (simp add: parseAttributes_body_def parseAttribute_epsilon_def)
next
  case ne: False
  show ?thesis
  proof (cases "attr_name a = ''momentum''")
    case True
    then show ?thesis
      by (simp add: parseAttributes_body_def parseAttribute_momentum_def)
  next
    case nm: False
    show ?thesis
    proof (cases "attr_name a = ''spatial''")
      case True
      then show ?thesis
        by (cases "parse_attribute_int ext a")
           (simp_all add: parseAttributes_body_def Let_def)
    next
      case False
      then show ?thesis using ne nm by (simp add: parseAttributes_body_def)
    qed
  qed
qed

lemma parseAttributes_Inr:
  "(\<exists>n'. parseAttributes ext as n = Inr n') =
     (\<forall>x \<in> set as.
        (attr_name x = ''epsilon'' \<or> attr_name x = ''momentum'')
          \<and> attr_type x = AttributeProto_AttributeType_FLOAT \<and> attr_has_f x
        \<or> attr_name x = ''spatial''
            \<and> (\<exists>v. parse_attribute_int ext x = Inr v \<and> int32_of v = 1))"
proof (induction as arbitrary: n)
  case Nil
  show ?case by simp
next
  case (Cons a as)
  show ?case
  proof (cases "parseAttributes_body ext a n")
    case (Inl e)
    then have "\<not> (\<exists>n'. parseAttributes_body ext a n = Inr n')" by simp
    then show ?thesis using Inl unfolding parseAttributes_body_Inr by simp
  next
    case (Inr n2)
    then have "\<exists>n'. parseAttributes_body ext a n = Inr n'" by blast
    then show ?thesis using Inr Cons.IH[of n2] unfolding parseAttributes_body_Inr by simp
  qed
qed

text \<open>
  What \<open>parseAttributes\<close> does in general. When the records before \<open>a\<close> have been
  parsed, parsing stops at \<open>a\<close> with \<open>ERROR("Bad attribute " << name)\<close> if \<open>a\<close> is named
  epsilon or momentum and its type is not \<open>FLOAT\<close> or it has no \<open>f\<close> value; with
  \<open>ERROR("non-default value for 'spatial' attribute not implemented")\<close> if \<open>a\<close> is
  named spatial and the integer read from it, converted to \<open>int\<close>, is not 1; and with
  \<open>ERROR("Unknown attribute " << name)\<close> if \<open>a\<close> has any other name. Parsing a list of
  records succeeds exactly when each record is an epsilon or momentum of type \<open>FLOAT\<close>
  with a value, or a spatial whose integer, converted to \<open>int\<close>, is 1.
\<close>

lemma parseAttributes_errors:
  "(parseAttributes ext pre n = Inr n1 \<longrightarrow>
      ((attr_name a = ''epsilon'' \<or> attr_name a = ''momentum'')
         \<and> (attr_type a \<noteq> AttributeProto_AttributeType_FLOAT \<or> \<not> attr_has_f a) \<longrightarrow>
       parseAttributes ext (pre @ a # post) n = Inl (ERROR (''Bad attribute '' @ attr_name a)))
    \<and> (attr_name a = ''spatial'' \<and> parse_attribute_int ext a = Inr v \<and> int32_of v \<noteq> 1 \<longrightarrow>
       parseAttributes ext (pre @ a # post) n =
         Inl (ERROR ''non-default value for 'spatial' attribute not implemented''))
    \<and> (attr_name a \<noteq> ''epsilon'' \<and> attr_name a \<noteq> ''momentum''
         \<and> attr_name a \<noteq> ''spatial'' \<longrightarrow>
       parseAttributes ext (pre @ a # post) n =
         Inl (ERROR (''Unknown attribute '' @ attr_name a))))
   \<and> ((\<exists>n'. parseAttributes ext as n = Inr n') =
        (\<forall>x \<in> set as.
           (attr_name x = ''epsilon'' \<or> attr_name x = ''momentum'')
             \<and> attr_type x = AttributeProto_AttributeType_FLOAT \<and> attr_has_f x
           \<or> attr_name x = ''spatial''
            \<and> (\<exists>v. parse_attribute_int ext x = Inr v \<and> int32_of v = 1)))"
proof (intro conjI impI)
  assume pre: "parseAttributes ext pre n = Inr n1"
  have step: "parseAttributes ext (pre @ a # post) n =
      (case parseAttributes_body ext a n1 of
         Inl e \<Rightarrow> Inl e
       | Inr n2 \<Rightarrow> parseAttributes ext post n2)"
    using pre by (simp add: parseAttributes_append)
  show "parseAttributes ext (pre @ a # post) n = Inl (ERROR (''Bad attribute '' @ attr_name a))"
    if "(attr_name a = ''epsilon'' \<or> attr_name a = ''momentum'')
         \<and> (attr_type a \<noteq> AttributeProto_AttributeType_FLOAT \<or> \<not> attr_has_f a)"
  proof -
    have "parseAttributes_body ext a n1 = Inl (ERROR (''Bad attribute '' @ attr_name a))"
      using that
      by (auto simp: parseAttributes_body_def parseAttribute_epsilon_def
            parseAttribute_momentum_def)
    then show ?thesis using step by simp
  qed
  show "parseAttributes ext (pre @ a # post) n =
         Inl (ERROR ''non-default value for 'spatial' attribute not implemented'')"
    if "attr_name a = ''spatial'' \<and> parse_attribute_int ext a = Inr v \<and> int32_of v \<noteq> 1"
  proof -
    have "parseAttributes_body ext a n1 =
            Inl (ERROR ''non-default value for 'spatial' attribute not implemented'')"
      using that by (simp add: parseAttributes_body_def Let_def)
    then show ?thesis using step by simp
  qed
  show "parseAttributes ext (pre @ a # post) n =
         Inl (ERROR (''Unknown attribute '' @ attr_name a))"
    if "attr_name a \<noteq> ''epsilon'' \<and> attr_name a \<noteq> ''momentum''
         \<and> attr_name a \<noteq> ''spatial''"
  proof -
    have "parseAttributes_body ext a n1 = Inl (ERROR (''Unknown attribute '' @ attr_name a))"
      using that by (simp add: parseAttributes_body_def)
    then show ?thesis using step by simp
  qed
next
  show "(\<exists>n'. parseAttributes ext as n = Inr n') =
        (\<forall>x \<in> set as.
           (attr_name x = ''epsilon'' \<or> attr_name x = ''momentum'')
             \<and> attr_type x = AttributeProto_AttributeType_FLOAT \<and> attr_has_f x
           \<or> attr_name x = ''spatial''
            \<and> (\<exists>v. parse_attribute_int ext x = Inr v \<and> int32_of v = 1))"
    by (rule parseAttributes_Inr)
qed

text \<open>
  Instances: an epsilon of integer type and a momentum without a value are bad
  attributes; \<open>spatial = 0\<close> is not implemented; \<open>training_mode\<close> is unknown; a float
  epsilon followed by \<open>spatial = 1\<close> parses.
\<close>

lemma parseAttributes_errors_instances:
  "parseAttributes real_externals [attr_epsilon_int, attr_spatial_1] scenario_node =
     Inl (ERROR ''Bad attribute epsilon'')
   \<and> parseAttributes real_externals [attr_momentum_no_value] scenario_node =
     Inl (ERROR ''Bad attribute momentum'')
   \<and> parseAttributes real_externals [attr_spatial_0] scenario_node =
     Inl (ERROR ''non-default value for 'spatial' attribute not implemented'')
   \<and> parseAttributes real_externals [attr_training_mode] scenario_node =
     Inl (ERROR ''Unknown attribute training_mode'')
   \<and> (\<exists>n'. parseAttributes real_externals [attr_epsilon_float, attr_spatial_1]
               scenario_node = Inr n')"
  using
    parseAttributes_errors [where ext = real_externals and pre = "[]"
      and n = scenario_node and ?n1.0 = scenario_node and a = attr_epsilon_int
      and post = "[attr_spatial_1]" and v = 0 and as = "[]"]
    parseAttributes_errors [where ext = real_externals and pre = "[]"
      and n = scenario_node and ?n1.0 = scenario_node and a = attr_momentum_no_value
      and post = "[]" and v = 0 and as = "[]"]
    parseAttributes_errors [where ext = real_externals and pre = "[]"
      and n = scenario_node and ?n1.0 = scenario_node and a = attr_spatial_0
      and post = "[]" and v = 0 and as = "[]"]
    parseAttributes_errors [where ext = real_externals and pre = "[]"
      and n = scenario_node and ?n1.0 = scenario_node and a = attr_training_mode
      and post = "[]" and v = 0 and as = "[attr_epsilon_float, attr_spatial_1]"]
  by (simp add: attr_epsilon_int_def attr_momentum_no_value_def attr_spatial_0_def
        attr_spatial_1_def attr_training_mode_def attr_epsilon_float_def
        real_externals_parse_attribute_int int32_of_def)

text \<open>
  Claim C8 says that a spatial record with any integer value other than 1 fails with
  the "not implemented" error. The code does not do so for every value: the record
  named spatial, of type \<open>INT\<close>, with the value \<open>4294967297 = 2^32 + 1\<close> in its 64-bit
  field is held in the \<open>int spatial\<close> of line 70 as 1, passes the test
  \<open>spatial != 1\<close>, and \<open>parseAttributes\<close> returns normally, the node unchanged.
\<close>

theorem parseAttributes_spatial_narrowed:
  "attr_name attr_spatial_wraps = ''spatial''
   \<and> attr_i attr_spatial_wraps = 4294967297
   \<and> parse_attribute_int real_externals attr_spatial_wraps = Inr 4294967297
   \<and> int32_of 4294967297 = 1
   \<and> parseAttributes real_externals [attr_spatial_wraps] scenario_node = Inr scenario_node"
  by (simp add: attr_spatial_wraps_def real_externals_parse_attribute_int int32_of_def
        parseAttributes_body_def Let_def)

end
